theory Spec2Isabelle
  imports Main "HOL-Library.Sublist"
begin

section \<open>Conversation data\<close>

text \<open>
  The agent talks to the completion endpoint with the message type of the go-openai
  client. Only the fields the program reads or writes are kept. A tool call's nested
  \<^verbatim>\<open>Function.Name\<close> and \<^verbatim>\<open>Function.Arguments\<close> are the fields
  \<open>FunctionName\<close> and \<open>FunctionArguments\<close>. Go strings are byte sequences, as
  \<^typ>\<open>string\<close> is; Go slices are lists (the places where the program shares a backing
  array only ever append past the shared length or overwrite the element just appended).
\<close>

record ToolCall =
  ID :: string
  FunctionName :: string
  FunctionArguments :: string

record ChatCompletionMessage =
  Role :: string
  Content :: string
  ToolCalls :: "ToolCall list"
  ToolCallID :: string

record ChatCompletionChoice =
  Message :: ChatCompletionMessage
  FinishReason :: string

definition ChatMessageRoleSystem :: string where
  "ChatMessageRoleSystem = ''system''"

definition ChatMessageRoleUser :: string where
  "ChatMessageRoleUser = ''user''"

definition ChatMessageRoleAssistant :: string where
  "ChatMessageRoleAssistant = ''assistant''"

definition ChatMessageRoleTool :: string where
  "ChatMessageRoleTool = ''tool''"

section \<open>Messages of the event loop\<close>

text \<open>
  Every \<^verbatim>\<open>tea.Msg\<close> the program produces or handles. An \<^verbatim>\<open>error\<close> value is its
  text; \<open>ProcessDoneMsg None\<close> is the nil error. \<open>KeyMsg k alt\<close> carries what
  \<^verbatim>\<open>msg.String()\<close> and \<^verbatim>\<open>msg.Alt\<close> return. \<open>OtherMsg\<close> stands for the messages
  of the UI library that \<^verbatim>\<open>Update\<close> has no case for (spinner ticks, cursor blinks).
\<close>

datatype Msg =
    RunCommandMsg string "string list" string "ChatCompletionMessage list"
  | WindowControlMsg string string string "ChatCompletionMessage list"
  | AiResponseMsg string "ChatCompletionMessage list"
  | AiCompleteMsg
  | ErrMsg string
  | ProcessOutputMsg string
  | ProcessDoneMsg "string option" string
  | WindowSizeMsg int int
  | KeyMsg string bool
  | OtherMsg string

section \<open>The environment of the agent loop\<close>

text \<open>
  The completion endpoint and the tools act on the outside world (network, file system).
  The world is a value of an arbitrary type \<open>'w\<close> threaded through every call, so a reply
  may depend on everything that happened before. Beside it the state keeps \<open>sent\<close>, the
  message lists of the requests made so far, oldest first: one entry per network call.

  \<^verbatim>\<open>json.Unmarshal\<close> into the two argument structs of \<^verbatim>\<open>InvokeAI\<close> belongs to the
  standard library and is a parameter: \<open>None\<close> is a decoding error.
\<close>

record 'w io =
  world :: 'w
  sent :: "ChatCompletionMessage list list"

record 'w ToolDefinition =
  Name :: string
  Function :: "'w \<Rightarrow> string \<Rightarrow> (string + string) \<times> 'w"

record 'w env =
  CreateChatCompletion ::
    "'w \<Rightarrow> ChatCompletionMessage list \<Rightarrow> (string + ChatCompletionChoice list) \<times> 'w"
  GetAllToolDefinitions :: "'w ToolDefinition list"
  Unmarshal_run_command :: "string \<Rightarrow> (string \<times> string list) option"
  Unmarshal_manage_window :: "string \<Rightarrow> (string \<times> string) option"

section \<open>Tool registry\<close>

text \<open>
  \<^verbatim>\<open>ExecuteToolByName\<close>: the first definition with the given name runs; a tool returns
  \<open>Inr result\<close> or \<open>Inl err\<close>. No definition with that name is an error.
\<close>

fun ExecuteToolByName ::
  "'w ToolDefinition list \<Rightarrow> string \<Rightarrow> string \<Rightarrow> 'w \<Rightarrow> (string + string) \<times> 'w" where
  "ExecuteToolByName [] name argsJSON w = (Inl (''unknown tool: '' @ name), w)"
| "ExecuteToolByName (tool # rest) name argsJSON w =
     (if Name tool = name then Function tool w argsJSON
      else ExecuteToolByName rest name argsJSON w)"

section \<open>The agent loop\<close>

text \<open>
  The two out-of-band checks at the head of the loop over the tool calls: a
  \<^verbatim>\<open>run_command\<close> call whose arguments decode returns a \<open>RunCommandMsg\<close>, a
  \<^verbatim>\<open>manage_window\<close> call whose arguments decode returns a \<open>WindowControlMsg\<close>, each
  with the messages so far. \<open>None\<close>: neither check returned.
\<close>

definition out_of_band ::
  "'w env \<Rightarrow> ToolCall \<Rightarrow> ChatCompletionMessage list \<Rightarrow> Msg option" where
  "out_of_band e toolCall messages =
     (case (if FunctionName toolCall = ''run_command''
            then Unmarshal_run_command e (FunctionArguments toolCall) else None) of
        Some (command, args) \<Rightarrow> Some (RunCommandMsg command args (ID toolCall) messages)
      | None \<Rightarrow>
          (case (if FunctionName toolCall = ''manage_window''
                 then Unmarshal_manage_window e (FunctionArguments toolCall) else None) of
             Some (action, target) \<Rightarrow>
               Some (WindowControlMsg action target (ID toolCall) messages)
           | None \<Rightarrow> None))"

text \<open>
  "Execute other tools normally": the registry runs the call, an error becomes the text
  \<^verbatim>\<open>Error executing tool: <err>\<close>, and the result is wrapped in a tool message.
\<close>

definition execute_tool :: "'w env \<Rightarrow> ToolCall \<Rightarrow> 'w io \<Rightarrow> ChatCompletionMessage \<times> 'w io" where
  "execute_tool e toolCall s =
     (case ExecuteToolByName (GetAllToolDefinitions e) (FunctionName toolCall)
             (FunctionArguments toolCall) (world s) of
        (r, w') \<Rightarrow>
          (let result = (case r of Inl err \<Rightarrow> ''Error executing tool: '' @ err
                                 | Inr res \<Rightarrow> res);
               toolMsg = \<lparr>Role = ChatMessageRoleTool, Content = result, ToolCalls = [],
                          ToolCallID = ID toolCall\<rparr>
           in (toolMsg, s\<lparr>world := w'\<rparr>)))"

text \<open>
  The loop over the tool calls of one reply. \<open>Inl m\<close> is the early \<^verbatim>\<open>return\<close> of
  \<^verbatim>\<open>InvokeAI\<close> with the message \<open>m\<close>; \<open>Inr messages\<close> is the end of the loop.
\<close>

fun tool_calls_loop ::
  "'w env \<Rightarrow> ToolCall list \<Rightarrow> ChatCompletionMessage list \<Rightarrow> 'w io
     \<Rightarrow> (Msg + ChatCompletionMessage list) \<times> 'w io" where
  "tool_calls_loop e [] messages s = (Inr messages, s)"
| "tool_calls_loop e (toolCall # rest) messages s =
     (case out_of_band e toolCall messages of
        Some m \<Rightarrow> (Inl m, s)
      | None \<Rightarrow>
          (case execute_tool e toolCall s of
             (toolMsg, s') \<Rightarrow> tool_calls_loop e rest (messages @ [toolMsg]) s'))"

text \<open>
  One pass through the body of the \<^verbatim>\<open>for\<close> loop: the request is sent (and recorded
  in \<open>sent\<close>), then the reply is handled. \<open>Inl m\<close>: \<^verbatim>\<open>InvokeAI\<close> returns \<open>m\<close>;
  \<open>Inr messages\<close>: \<^verbatim>\<open>continue\<close> with the new messages.
\<close>

definition iteration_body ::
  "'w env \<Rightarrow> ChatCompletionMessage list \<Rightarrow> 'w io
     \<Rightarrow> (Msg + ChatCompletionMessage list) \<times> 'w io" where
  "iteration_body e messages s =
     (case CreateChatCompletion e (world s) messages of
        (resp, w') \<Rightarrow>
          (let s1 = s\<lparr>world := w', sent := sent s @ [messages]\<rparr> in
           (case resp of
              Inl err \<Rightarrow> (Inl (ErrMsg (''API error: '' @ err)), s1)
            | Inr [] \<Rightarrow> (Inl (ErrMsg ''no response from model''), s1)
            | Inr (choice # _) \<Rightarrow>
                (if length (ToolCalls (Message choice)) > 0 then
                   (let assistantMsg =
                          \<lparr>Role = ChatMessageRoleAssistant,
                           Content = Content (Message choice),
                           ToolCalls = ToolCalls (Message choice),
                           ToolCallID = []\<rparr>
                    in tool_calls_loop e (ToolCalls (Message choice))
                         (messages @ [assistantMsg]) s1)
                 else
                   (let content = Content (Message choice) in
                    (Inl (AiResponseMsg content
                            (messages @ [\<lparr>Role = ChatMessageRoleAssistant, Content = content,
                                           ToolCalls = [], ToolCallID = []\<rparr>])), s1))))))"

text \<open>
  \<^verbatim>\<open>for iteration := 0; iteration < 10; iteration++\<close>, and the failure after the loop.
\<close>

function agent_loop ::
  "'w env \<Rightarrow> nat \<Rightarrow> ChatCompletionMessage list \<Rightarrow> 'w io \<Rightarrow> Msg \<times> 'w io" where
  "agent_loop e iteration messages s =
     (if iteration < 10 then
        (case iteration_body e messages s of
           (Inl m, s') \<Rightarrow> (m, s')
         | (Inr messages', s') \<Rightarrow> agent_loop e (Suc iteration) messages' s')
      else (ErrMsg ''max iterations reached - possible infinite loop'', s))"
  by pat_completeness auto
termination
  by (relation "measure (\<lambda>(e, iteration, messages, s). 10 - iteration)") auto

declare agent_loop.simps [simp del]

text \<open>
  \<^verbatim>\<open>InvokeAI\<close>, the command run in the background. \<open>modelName\<close> is the environment
  variable \<^verbatim>\<open>PROVIDER_MODEL\<close>, \<open>history\<close> is \<^verbatim>\<open>m.History\<close>, which the loop copies.
\<close>

definition InvokeAI ::
  "'w env \<Rightarrow> string \<Rightarrow> ChatCompletionMessage list \<Rightarrow> 'w io \<Rightarrow> Msg \<times> 'w io" where
  "InvokeAI e modelName history s =
     (if modelName = [] then (ErrMsg ''PROVIDER_MODEL not set in .env'', s)
      else agent_loop e 0 history s)"

section \<open>String functions of the Go library\<close>

text \<open>
  The functions of package \<^verbatim>\<open>strings\<close> that the UI uses, on bytes.

  \<^verbatim>\<open>strings.Fields\<close> splits around runs of the runes for which \<^verbatim>\<open>unicode.IsSpace\<close>
  holds: U+0009 to U+000D, U+0020, U+0085, U+00A0, U+1680, U+2000 to U+200A, U+2028,
  U+2029, U+202F, U+205F and U+3000. \<open>white_space\<close> lists their UTF-8 encodings. Go
  decodes the string rune by rune, and a byte that starts no valid encoding is the rune
  U+FFFD of width 1, which is no white space. Each encoding below is valid UTF-8, so
  where one of them starts at a rune boundary Go decodes exactly that rune; and none of
  them starts with a continuation byte (\<open>0x80\<close> to \<open>0xBF\<close>), so none can start inside
  a longer rune. Hence scanning the bytes from the left, cutting where an encoding of
  \<open>white_space\<close> starts and keeping every other byte, gives the fields Go returns, for
  every byte string (for an ASCII string this is Go's fast path over the first six).
\<close>

definition white_space :: "string list" where
  "white_space =
     [[CHR 0x09], [CHR 0x0A], [CHR 0x0B], [CHR 0x0C], [CHR 0x0D], [CHR 0x20],
      [CHR 0xC2, CHR 0x85], [CHR 0xC2, CHR 0xA0],
      [CHR 0xE1, CHR 0x9A, CHR 0x80],
      [CHR 0xE2, CHR 0x80, CHR 0x80], [CHR 0xE2, CHR 0x80, CHR 0x81],
      [CHR 0xE2, CHR 0x80, CHR 0x82], [CHR 0xE2, CHR 0x80, CHR 0x83],
      [CHR 0xE2, CHR 0x80, CHR 0x84], [CHR 0xE2, CHR 0x80, CHR 0x85],
      [CHR 0xE2, CHR 0x80, CHR 0x86], [CHR 0xE2, CHR 0x80, CHR 0x87],
      [CHR 0xE2, CHR 0x80, CHR 0x88], [CHR 0xE2, CHR 0x80, CHR 0x89],
      [CHR 0xE2, CHR 0x80, CHR 0x8A],
      [CHR 0xE2, CHR 0x80, CHR 0xA8], [CHR 0xE2, CHR 0x80, CHR 0xA9],
      [CHR 0xE2, CHR 0x80, CHR 0xAF],
      [CHR 0xE2, CHR 0x81, CHR 0x9F],
      [CHR 0xE3, CHR 0x80, CHR 0x80]]"

text \<open>
  The number of bytes of the white space rune at the head of \<open>s\<close>; 0 when \<open>s\<close> does
  not start with one.
\<close>

definition space_width :: "string \<Rightarrow> nat" where
  "space_width s =
     (case find (\<lambda>enc. prefix enc s) white_space of Some enc \<Rightarrow> length enc | None \<Rightarrow> 0)"

text \<open>
  \<open>Fields_from skip s cur\<close>: the fields of \<open>s\<close>, where \<open>cur\<close> holds the bytes of the
  field being read and \<open>skip\<close> counts the bytes of a white space rune still to pass.
\<close>

fun Fields_from :: "nat \<Rightarrow> string \<Rightarrow> string \<Rightarrow> string list" where
  "Fields_from skip [] cur = (if cur = [] then [] else [cur])"
| "Fields_from skip (c # cs) cur =
     (if skip > 0 then Fields_from (skip - 1) cs cur
      else if space_width (c # cs) > 0 then
        (if cur = [] then Fields_from (space_width (c # cs) - 1) cs []
         else cur # Fields_from (space_width (c # cs) - 1) cs [])
      else Fields_from 0 cs (cur @ [c]))"

definition Fields :: "string \<Rightarrow> string list" where
  "Fields s = Fields_from 0 s []"

definition HasPrefix :: "string \<Rightarrow> string \<Rightarrow> bool" where
  "HasPrefix s p = prefix p s"

definition TrimPrefix :: "string \<Rightarrow> string \<Rightarrow> string" where
  "TrimPrefix s p = (if HasPrefix s p then drop (length p) s else s)"

fun Contains :: "string \<Rightarrow> string \<Rightarrow> bool" where
  "Contains [] substr = (substr = [])"
| "Contains (c # cs) substr = (prefix substr (c # cs) \<or> Contains cs substr)"

fun Join :: "string list \<Rightarrow> string \<Rightarrow> string" where
  "Join [] sep = []"
| "Join [x] sep = x"
| "Join (x # y # ys) sep = x @ sep @ Join (y # ys) sep"

section \<open>The UI model\<close>

text \<open>
  The fields of \<^verbatim>\<open>Model\<close> that carry session state. The text area is represented by
  its value (\<open>Input\<close>): \<^verbatim>\<open>Value\<close> reads it, \<^verbatim>\<open>SetValue\<close> writes it, \<^verbatim>\<open>Reset\<close>
  empties it, and what the text area does with a message is a parameter of \<open>Update\<close>.
  The viewports, the spinner and the rendering into them are display only and are left
  out, as are the client and the process channel.
\<close>

datatype SessionState = StateIdle | StateThinking

record Model =
  State :: SessionState
  Input :: string
  Files :: "string list"
  History :: "ChatCompletionMessage list"
  PendingQueue :: "string list"
  ProcessOutput :: string
  ShowAutocomplete :: bool
  AutocompleteIdx :: int
  AutocompleteList :: "string list"
  Width :: int
  Height :: int
  ShowSidebar :: bool

text \<open>
  The commands \<^verbatim>\<open>Update\<close> hands back to the runtime; a batch is a list, \<^verbatim>\<open>nil\<close> the
  empty list. \<open>InvokeAICmd h\<close> is \<^verbatim>\<open>m.InvokeAI()\<close> on a model whose history is \<open>h\<close>;
  \<open>ResizeCmd w h\<close> delivers \<open>WindowSizeMsg w h\<close>; \<open>AiCompleteCmd\<close> delivers
  \<open>AiCompleteMsg\<close>. The last three are the commands of the library components.
\<close>

datatype Cmd =
    Quit
  | InvokeAICmd "ChatCompletionMessage list"
  | ResizeCmd int int
  | AiCompleteCmd
  | RunProcessCmdCmd string "string list" string
  | WaitForProcessOutput
  | tiCmd
  | vpCmd
  | spCmd

datatype panic = IndexOutOfRange

definition InitialModel :: "string list \<Rightarrow> string \<Rightarrow> Model" where
  "InitialModel files systemPrompt =
     \<lparr>State = StateIdle, Input = [], Files = files,
      History =
        (if systemPrompt \<noteq> [] then
           [\<lparr>Role = ''system'', Content = systemPrompt, ToolCalls = [], ToolCallID = []\<rparr>,
            \<lparr>Role = ''user'',
             Content = ''Hello! Please introduce yourself and your tools briefly.'',
             ToolCalls = [], ToolCallID = []\<rparr>]
         else []),
      PendingQueue = [], ProcessOutput = [], ShowAutocomplete = False,
      AutocompleteIdx = 0, AutocompleteList = [], Width = 0, Height = 0,
      ShowSidebar = False\<rparr>"

subsection \<open>Message tagging\<close>

text \<open>The inner loop of \<^verbatim>\<open>resolveFileTags\<close> and of the exact-match test: is \<open>path\<close> a known file?\<close>

fun known_file :: "string list \<Rightarrow> string \<Rightarrow> bool" where
  "known_file [] path = False"
| "known_file (f # fs) path = (if f = path then True else known_file fs path)"

fun referencedFiles :: "string list \<Rightarrow> string list \<Rightarrow> string list" where
  "referencedFiles files [] = []"
| "referencedFiles files (word # ws) =
     (if HasPrefix word ''@'' \<and> known_file files (TrimPrefix word ''@'')
      then TrimPrefix word ''@'' # referencedFiles files ws
      else referencedFiles files ws)"

definition resolveFileTags :: "string list \<Rightarrow> string \<Rightarrow> string" where
  "resolveFileTags files input =
     (let refs = referencedFiles files (Fields input) in
      if length refs > 0 then
        input @ [CHR 0x0A, CHR 0x0A] @ ''[User has referenced these files: ''
          @ Join refs '', '' @ ''. Use the read_file tool to view their contents.]''
      else input)"

subsection \<open>Autocomplete\<close>

text \<open>
  The loop that fills \<^verbatim>\<open>m.AutocompleteList\<close>: every file that contains \<open>search\<close> is
  appended, and the loop breaks when the list has 10 entries.
\<close>

fun autocomplete_loop :: "string list \<Rightarrow> string \<Rightarrow> string list \<Rightarrow> string list" where
  "autocomplete_loop [] search acc = acc"
| "autocomplete_loop (f # fs) search acc =
     (if search = [] \<or> Contains f search then
        (let acc' = acc @ [f] in
         if length acc' \<ge> 10 then acc' else autocomplete_loop fs search acc')
      else autocomplete_loop fs search acc)"

text \<open>"Check if we should show autocomplete": the block after the text area's update.\<close>

definition update_autocomplete :: "Model \<Rightarrow> Model" where
  "update_autocomplete m =
     (let inputVal = Input m; words = Fields inputVal in
      if length words > 0 then
        (let lastWord = last words in
         if HasPrefix lastWord ''@'' then
           (let search = TrimPrefix lastWord ''@'' in
            if known_file (Files m) search then m\<lparr>ShowAutocomplete := False\<rparr>
            else
              (let m1 = m\<lparr>AutocompleteList := autocomplete_loop (Files m) search []\<rparr> in
               if length (AutocompleteList m1) > 0 then
                 (let m2 = m1\<lparr>ShowAutocomplete := True\<rparr> in
                  if AutocompleteIdx m2 \<ge> int (length (AutocompleteList m2))
                  then m2\<lparr>AutocompleteIdx := 0\<rparr> else m2)
               else m1\<lparr>ShowAutocomplete := False\<rparr>))
         else m\<lparr>ShowAutocomplete := False\<rparr>)
      else m\<lparr>ShowAutocomplete := False\<rparr>)"

text \<open>
  "Insert selected file", the body shared by the \<^verbatim>\<open>tab\<close> and \<^verbatim>\<open>enter\<close> cases:
  \<^verbatim>\<open>m.AutocompleteList[m.AutocompleteIdx]\<close> panics when the index is out of range.
\<close>

definition insert_selected :: "Model \<Rightarrow> panic + Model" where
  "insert_selected m =
     (if 0 \<le> AutocompleteIdx m \<and> AutocompleteIdx m < int (length (AutocompleteList m)) then
        (let selected = AutocompleteList m ! nat (AutocompleteIdx m);
             words = Fields (Input m);
             m1 = (if length words > 0
                   then m\<lparr>Input := Join (butlast words @ [''@'' @ selected]) '' '' @ '' ''\<rparr>
                   else m)
         in Inr (m1\<lparr>ShowAutocomplete := False\<rparr>))
      else Inl IndexOutOfRange)"

subsection \<open>Update\<close>

text \<open>
  The code after the \<^verbatim>\<open>switch\<close>, reached by every case that does not return: the text
  area handles the message (\<open>ta\<close>), autocomplete is recomputed, and the commands of the
  components are added to the batch.
\<close>

definition after_switch ::
  "(Msg \<Rightarrow> string \<Rightarrow> string) \<Rightarrow> Msg \<Rightarrow> Model \<Rightarrow> Cmd list \<Rightarrow> panic + Model \<times> Cmd list" where
  "after_switch ta msg m cmds =
     (let m1 = update_autocomplete (m\<lparr>Input := ta msg (Input m)\<rparr>) in
      Inr (m1, cmds @ [tiCmd, vpCmd] @ (if State m1 = StateThinking then [spCmd] else [])))"

text \<open>The submission of the input (\<^verbatim>\<open>enter\<close> on a non-empty input, without Alt).\<close>

definition submit :: "Model \<Rightarrow> Model \<times> Cmd list" where
  "submit m =
     (let userMsg = Input m;
          finalContent = resolveFileTags (Files m) userMsg;
          m1 = m\<lparr>History := History m @
                  [\<lparr>Role = ChatMessageRoleUser, Content = finalContent, ToolCalls = [],
                    ToolCallID = []\<rparr>]\<rparr>;
          m2 = m1\<lparr>Input := []\<rparr>
      in if State m2 = StateIdle then
           (let m3 = m2\<lparr>State := StateThinking\<rparr> in (m3, [InvokeAICmd (History m3)]))
         else (m2\<lparr>PendingQueue := PendingQueue m2 @ [finalContent]\<rparr>, []))"

definition Update_key ::
  "(Msg \<Rightarrow> string \<Rightarrow> string) \<Rightarrow> Model \<Rightarrow> string \<Rightarrow> bool \<Rightarrow> panic + Model \<times> Cmd list" where
  "Update_key ta m k alt =
     (if k = ''ctrl+c'' \<or> k = ''esc'' then
        (if ShowAutocomplete m then Inr (m\<lparr>ShowAutocomplete := False\<rparr>, [])
         else Inr (m, [Quit]))
      else if k = ''up'' then
        (if ShowAutocomplete m \<and> AutocompleteIdx m > 0
         then Inr (m\<lparr>AutocompleteIdx := AutocompleteIdx m - 1\<rparr>, [])
         else after_switch ta (KeyMsg k alt) m [])
      else if k = ''down'' then
        (if ShowAutocomplete m \<and> AutocompleteIdx m < int (length (AutocompleteList m)) - 1
         then Inr (m\<lparr>AutocompleteIdx := AutocompleteIdx m + 1\<rparr>, [])
         else after_switch ta (KeyMsg k alt) m [])
      else if k = ''tab'' then
        (if ShowAutocomplete m \<and> length (AutocompleteList m) > 0
         then (case insert_selected m of Inl p \<Rightarrow> Inl p | Inr m' \<Rightarrow> Inr (m', []))
         else after_switch ta (KeyMsg k alt) m [])
      else if k = ''enter'' then
        (if ShowAutocomplete m \<and> length (AutocompleteList m) > 0
         then (case insert_selected m of Inl p \<Rightarrow> Inl p | Inr m' \<Rightarrow> Inr (m', []))
         else if \<not> alt \<and> Input m \<noteq> [] then Inr (submit m)
         else after_switch ta (KeyMsg k alt) m [])
      else after_switch ta (KeyMsg k alt) m [])"

text \<open>
  \<^verbatim>\<open>Update\<close>: one transition of the state machine. \<open>Inl\<close> is a run-time panic,
  \<open>Inr (m', cmds)\<close> the new model and the batch of commands. \<^verbatim>\<open>SaveSession\<close>, called
  before quitting, writes the transcript to a file and leaves the model as it is.
\<close>

definition Update ::
  "(Msg \<Rightarrow> string \<Rightarrow> string) \<Rightarrow> Model \<Rightarrow> Msg \<Rightarrow> panic + Model \<times> Cmd list" where
  "Update ta m msg =
     (case msg of
        WindowControlMsg action target toolCallID history \<Rightarrow>
          (let m1 = (if action = ''open'' then m\<lparr>ShowSidebar := True\<rparr>
                     else if action = ''close'' then m\<lparr>ShowSidebar := False\<rparr>
                     else m);
               result = ''Window action '' @ [CHR 0x27] @ action @ [CHR 0x27] @ '' triggered.'';
               m2 = m1\<lparr>History := history @
                       [\<lparr>Role = ChatMessageRoleTool, Content = result, ToolCalls = [],
                         ToolCallID = toolCallID\<rparr>]\<rparr>;
               m3 = m2\<lparr>State := StateThinking\<rparr>
           in Inr (m3, [ResizeCmd (Width m3) (Height m3), InvokeAICmd (History m3)]))
      | WindowSizeMsg width height \<Rightarrow>
          after_switch ta msg (m\<lparr>Width := width, Height := height\<rparr>) []
      | KeyMsg k alt \<Rightarrow> Update_key ta m k alt
      | AiResponseMsg content history \<Rightarrow>
          after_switch ta msg (m\<lparr>History := history\<rparr>) [AiCompleteCmd]
      | AiCompleteMsg \<Rightarrow>
          (let m1 = m\<lparr>State := StateIdle\<rparr> in
           (case PendingQueue m1 of
              [] \<Rightarrow> after_switch ta msg m1 []
            | nextContent # rest \<Rightarrow>
                (let m2 = m1\<lparr>PendingQueue := rest\<rparr>;
                     m3 = m2\<lparr>History := History m2 @
                             [\<lparr>Role = ChatMessageRoleUser, Content = nextContent,
                               ToolCalls = [], ToolCallID = []\<rparr>]\<rparr>;
                     m4 = m3\<lparr>State := StateThinking\<rparr>
                 in after_switch ta msg m4 [InvokeAICmd (History m4)])))
      | ErrMsg err \<Rightarrow>
          after_switch ta msg
            (m\<lparr>History := History m @
                  [\<lparr>Role = ChatMessageRoleAssistant, Content = ''**Error:** '' @ err,
                    ToolCalls = [], ToolCallID = []\<rparr>],
               State := StateIdle\<rparr>) []
      | RunCommandMsg command args toolCallID history \<Rightarrow>
          Inr (m\<lparr>History := history, ProcessOutput := []\<rparr>,
               [RunProcessCmdCmd command args toolCallID, WaitForProcessOutput])
      | ProcessOutputMsg line \<Rightarrow>
          Inr (m\<lparr>ProcessOutput := ProcessOutput m @ line @ [CHR 0x0A]\<rparr>,
               [WaitForProcessOutput])
      | ProcessDoneMsg err toolCallID \<Rightarrow>
          (let result = (case err of None \<Rightarrow> ''Process finished successfully.''
                                  | Some e \<Rightarrow> ''Process exited with error: '' @ e);
               m1 = m\<lparr>History := History m @
                       [\<lparr>Role = ChatMessageRoleTool, Content = result, ToolCalls = [],
                         ToolCallID = toolCallID\<rparr>]\<rparr>;
               m2 = (if \<not> ShowSidebar m1 then
                       (let fullLog = ''Process Output:'' @ [CHR 0x0A] @ ''```'' @ [CHR 0x0A]
                                        @ ProcessOutput m1 @ ''```'' @ [CHR 0x0A] @ result
                        in m1\<lparr>History := butlast (History m1) @
                                 [(last (History m1))\<lparr>Content := fullLog\<rparr>]\<rparr>)
                     else m1);
               m3 = m2\<lparr>ProcessOutput := []\<rparr>;
               m4 = m3\<lparr>State := StateThinking\<rparr>
           in Inr (m4, [InvokeAICmd (History m4)]))
      | OtherMsg x \<Rightarrow> after_switch ta msg m [])"

text \<open>
  The event loop feeds the messages to \<open>Update\<close> one at a time; a panic ends the program.
\<close>

fun run :: "(Msg \<Rightarrow> string \<Rightarrow> string) \<Rightarrow> Model \<Rightarrow> Msg list \<Rightarrow> panic + Model" where
  "run ta m [] = Inr m"
| "run ta m (msg # msgs) =
     (case Update ta m msg of Inl p \<Rightarrow> Inl p | Inr (m', cmds) \<Rightarrow> run ta m' msgs)"

section \<open>The process runner\<close>

text \<open>
  The operating system is a parameter: \<open>LookPath\<close> tells whether a binary is found,
  \<open>Start\<close> is \<^verbatim>\<open>cmd.Start()\<close> for a command and its arguments: \<open>Inl err\<close> when the
  process cannot be spawned, else the process, given by the lines it writes to each pipe
  and by what \<^verbatim>\<open>cmd.Wait()\<close> returns (\<open>None\<close> is nil).
\<close>

record Process =
  stdout :: "string list"
  stderr :: "string list"
  Wait :: "string option"

record os =
  LookPath :: "string \<Rightarrow> bool"
  Start :: "string \<Rightarrow> string list \<Rightarrow> string + Process"

definition ResolveBinary :: "os \<Rightarrow> string \<Rightarrow> string" where
  "ResolveBinary sys bin =
     (if LookPath sys bin then bin
      else if bin = ''python'' then (if LookPath sys ''python3'' then ''python3'' else bin)
      else if bin = ''pip'' then (if LookPath sys ''pip3'' then ''pip3'' else bin)
      else bin)"

text \<open>
  \<^verbatim>\<open>RunProcessCmd\<close>. The command returns one message, \<open>completion\<close>. The two readers run
  concurrently and send each line of their pipe, in order, on the channel; \<open>outputs\<close>
  is the set of sequences of messages the channel may carry: every interleaving of an
  initial part of each pipe's lines (a reader stops when its pipe is closed or when
  nobody receives any more). When the process does not start no reader is started.
\<close>

record ProcessRun =
  outputs :: "Msg list set"
  completion :: Msg

definition RunProcessCmd :: "os \<Rightarrow> string \<Rightarrow> string list \<Rightarrow> string \<Rightarrow> ProcessRun" where
  "RunProcessCmd sys command args toolCallID =
     (let resolvedCmd = ResolveBinary sys command in
      case Start sys resolvedCmd args of
        Inl err \<Rightarrow> \<lparr>outputs = {[]}, completion = ProcessDoneMsg (Some err) toolCallID\<rparr>
      | Inr p \<Rightarrow>
          \<lparr>outputs = (\<Union>xs \<in> set (prefixes (stdout p)). \<Union>ys \<in> set (prefixes (stderr p)).
                        map ProcessOutputMsg ` shuffles xs ys),
           completion = ProcessDoneMsg (Wait p) toolCallID\<rparr>)"

section \<open>Environments for concrete runs\<close>

text \<open>
  A scripted endpoint: the world is the number of requests answered so far, and the
  \<open>n\<close>-th request (from 0) is answered by \<open>replies n\<close> whatever it contains. The tools
  are functions of their arguments that leave the world alone.
\<close>

definition scripted ::
  "(nat \<Rightarrow> string + ChatCompletionChoice list) \<Rightarrow> (string \<times> (string \<Rightarrow> string + string)) list
     \<Rightarrow> (string \<Rightarrow> (string \<times> string list) option) \<Rightarrow> (string \<Rightarrow> (string \<times> string) option)
     \<Rightarrow> nat env" where
  "scripted replies tools urc umw =
     \<lparr>CreateChatCompletion = (\<lambda>n messages. (replies n, Suc n)),
      GetAllToolDefinitions =
        map (\<lambda>(name, f). \<lparr>Name = name, Function = (\<lambda>w argsJSON. (f argsJSON, w))\<rparr>) tools,
      Unmarshal_run_command = urc,
      Unmarshal_manage_window = umw\<rparr>"

text \<open>
  A text area for concrete runs: a key of one character is appended to the value, every
  other message leaves it as it is.
\<close>

definition typing :: "Msg \<Rightarrow> string \<Rightarrow> string" where
  "typing msg v = (case msg of KeyMsg k alt \<Rightarrow> (if length k = 1 then v @ k else v) | _ \<Rightarrow> v)"

text \<open>Sample data for concrete runs.\<close>

definition read_call :: ToolCall where
  "read_call = \<lparr>ID = ''call_1'', FunctionName = ''read_file'',
                FunctionArguments = ''{\"path\":\"main.go\"}''\<rparr>"

definition tool_choice :: "ToolCall list \<Rightarrow> ChatCompletionChoice" where
  "tool_choice calls =
     \<lparr>Message = \<lparr>Role = ''assistant'', Content = [], ToolCalls = calls, ToolCallID = []\<rparr>,
      FinishReason = ''tool_calls''\<rparr>"

definition content_choice :: "string \<Rightarrow> ChatCompletionChoice" where
  "content_choice text =
     \<lparr>Message = \<lparr>Role = ''assistant'', Content = text, ToolCalls = [], ToolCallID = []\<rparr>,
      FinishReason = ''stop''\<rparr>"

text \<open>
  Decoders for concrete runs: one well-formed payload each, every other text is malformed.
\<close>

definition sample_urc :: "string \<Rightarrow> (string \<times> string list) option" where
  "sample_urc argsJSON =
     (if argsJSON = ''{\"command\":\"ls\",\"args\":[\"-l\"]}'' then Some (''ls'', [''-l''])
      else None)"

definition sample_umw :: "string \<Rightarrow> (string \<times> string) option" where
  "sample_umw argsJSON =
     (if argsJSON = ''{\"action\":\"open\",\"target\":\"terminal\"}''
      then Some (''open'', ''terminal'') else None)"

text \<open>
  A registry for concrete runs, with the names of \<^verbatim>\<open>GetAllToolDefinitions\<close> in its
  order: reading succeeds, editing does not find its block, and \<^verbatim>\<open>run_command\<close> and
  \<^verbatim>\<open>manage_window\<close> fail on a payload that does not decode, as \<^verbatim>\<open>RunCommand\<close> and
  \<^verbatim>\<open>ManageWindow\<close> do.
\<close>

definition sample_tools :: "(string \<times> (string \<Rightarrow> string + string)) list" where
  "sample_tools =
     [(''read_file'', \<lambda>argsJSON. Inr ''package main''),
      (''list_files'', \<lambda>argsJSON. Inr ''main.go''),
      (''run_command'', \<lambda>argsJSON.
         if sample_urc argsJSON = None then Inl ''unexpected end of JSON input''
         else Inr ''total 0''),
      (''init_project'', \<lambda>argsJSON. Inr ''Initialized''),
      (''write_file'', \<lambda>argsJSON. Inr ''Successfully wrote to main.go (Length: 0 characters)''),
      (''edit_file'', \<lambda>argsJSON.
         Inl ''search block not found in main.go. Ensure exact match (including whitespace).''),
      (''manage_window'', \<lambda>argsJSON.
         if sample_umw argsJSON = None then Inl ''unexpected end of JSON input''
         else Inr ''Window action triggered'')]"

definition run_call :: ToolCall where
  "run_call = \<lparr>ID = ''call_2'', FunctionName = ''run_command'',
               FunctionArguments = ''{\"command\":\"ls\",\"args\":[\"-l\"]}''\<rparr>"

definition malformed_run_call :: ToolCall where
  "malformed_run_call = \<lparr>ID = ''call_3'', FunctionName = ''run_command'',
                         FunctionArguments = ''{\"command\":''\<rparr>"

definition edit_call :: ToolCall where
  "edit_call = \<lparr>ID = ''call_4'', FunctionName = ''edit_file'',
                FunctionArguments = ''{\"path\":\"main.go\",\"search_text\":\"x\",\"replace_text\":\"y\"}''\<rparr>"

text \<open>Reply scripts: the reply to request \<open>n\<close>.\<close>

definition nine_then_content :: "nat \<Rightarrow> string + ChatCompletionChoice list" where
  "nine_then_content n =
     (if n < 9 then Inr [tool_choice [read_call]] else Inr [content_choice ''Done.''])"

definition ten_then_content :: "nat \<Rightarrow> string + ChatCompletionChoice list" where
  "ten_then_content n =
     (if n < 10 then Inr [tool_choice [read_call]] else Inr [content_choice ''Done.''])"

definition always_tools :: "nat \<Rightarrow> string + ChatCompletionChoice list" where
  "always_tools n = Inr [tool_choice [read_call]]"

definition content_first :: "nat \<Rightarrow> string + ChatCompletionChoice list" where
  "content_first n = Inr [content_choice ''Done.'']"

definition read_run_edit :: "nat \<Rightarrow> string + ChatCompletionChoice list" where
  "read_run_edit n = Inr [tool_choice [read_call, run_call, edit_call]]"

definition malformed_then_content :: "nat \<Rightarrow> string + ChatCompletionChoice list" where
  "malformed_then_content n =
     (if n < 1 then Inr [tool_choice [malformed_run_call]] else Inr [content_choice ''Done.''])"

definition failing_edit_then_content :: "nat \<Rightarrow> string + ChatCompletionChoice list" where
  "failing_edit_then_content n =
     (if n < 1 then Inr [tool_choice [read_call, edit_call, read_call]]
      else Inr [content_choice ''Done.''])"

definition nine_then_failing_edit :: "nat \<Rightarrow> string + ChatCompletionChoice list" where
  "nine_then_failing_edit n =
     (if n < 9 then Inr [tool_choice [read_call]]
      else if n < 10 then Inr [tool_choice [edit_call]]
      else Inr [content_choice ''Done.''])"

definition sample_files :: "string list" where
  "sample_files = [''main.go'', ''model.go'', ''styles.go'']"

text \<open>
  An operating system for concrete runs: \<^verbatim>\<open>python3\<close> and \<^verbatim>\<open>ls\<close> are installed,
  \<^verbatim>\<open>python3\<close> prints two lines and exits cleanly, \<^verbatim>\<open>ls\<close> exits with status 2, and
  nothing else can be started.
\<close>

definition sample_os :: os where
  "sample_os =
     \<lparr>LookPath = (\<lambda>bin. bin = ''python3'' \<or> bin = ''ls''),
      Start = (\<lambda>cmd args.
        if cmd = ''python3'' then Inr \<lparr>stdout = [''a'', ''b''], stderr = [], Wait = None\<rparr>
        else if cmd = ''ls'' then
          Inr \<lparr>stdout = [], stderr = [''ls: cannot access''], Wait = Some ''exit status 2''\<rparr>
        else Inl ''executable file not found in $PATH'')\<rparr>"

section \<open>Notions used by the properties\<close>

text \<open>
  A tool call is synchronous when neither out-of-band check returns for it. A reply is a
  tool-call reply when its first choice has tool calls, all of them synchronous; it is a
  content reply when its first choice has no tool call.
\<close>

definition synchronous :: "'w env \<Rightarrow> ToolCall \<Rightarrow> bool" where
  "synchronous e toolCall = (out_of_band e toolCall [] = None)"

definition tool_call_reply :: "'w env \<Rightarrow> string + ChatCompletionChoice list \<Rightarrow> bool" where
  "tool_call_reply e resp =
     (case resp of
        Inr (choice # _) \<Rightarrow>
          ToolCalls (Message choice) \<noteq> [] \<and> list_all (synchronous e) (ToolCalls (Message choice))
      | _ \<Rightarrow> False)"

definition content_reply :: "string + ChatCompletionChoice list \<Rightarrow> bool" where
  "content_reply resp =
     (case resp of Inr (choice # _) \<Rightarrow> ToolCalls (Message choice) = [] | _ \<Rightarrow> False)"

text \<open>The history a message of the agent loop carries, if it carries one.\<close>

definition returned_history :: "Msg \<Rightarrow> ChatCompletionMessage list option" where
  "returned_history m =
     (case m of
        RunCommandMsg command args toolCallID history \<Rightarrow> Some history
      | WindowControlMsg action target toolCallID history \<Rightarrow> Some history
      | AiResponseMsg content history \<Rightarrow> Some history
      | _ \<Rightarrow> None)"

text \<open>
  The autocomplete invariant: the index is never negative, and while the overlay is shown
  the candidate list is not empty and the index is a position of it.
\<close>

definition autocomplete_inv :: "Model \<Rightarrow> bool" where
  "autocomplete_inv m =
     (0 \<le> AutocompleteIdx m \<and>
      (ShowAutocomplete m \<longrightarrow>
         AutocompleteList m \<noteq> [] \<and> AutocompleteIdx m < int (length (AutocompleteList m))))"

section \<open>Facts about the agent loop\<close>

lemma out_of_band_None: "out_of_band e tc ms = None \<longleftrightarrow> synchronous e tc"
  by (auto simp: out_of_band_def synchronous_def split: option.splits if_splits)

lemma sent_execute_tool: "sent (snd (execute_tool e tc s)) = sent s"
  by (simp add: execute_tool_def Let_def split: prod.splits)

lemma sent_tool_calls_loop: "sent (snd (tool_calls_loop e tcs ms s)) = sent s"
proof (induction tcs arbitrary: ms s)
  case Nil then show ?case by simp
next
  case (Cons tc tcs)
  show ?case
  proof (cases "out_of_band e tc ms")
    case None
    obtain tm s' where ex: "execute_tool e tc s = (tm, s')" by (cases "execute_tool e tc s")
    have "sent s' = sent s" using sent_execute_tool[of e tc s] ex by simp
    with None ex Cons.IH[of "ms @ [tm]" s'] show ?thesis by simp
  next
    case (Some m) then show ?thesis by simp
  qed
qed

lemma sent_iteration_body: "sent (snd (iteration_body e ms s)) = sent s @ [ms]"
  by (simp add: iteration_body_def Let_def sent_tool_calls_loop split: prod.splits sum.splits list.splits)

lemma sent_agent_loop:
  "\<exists>reqs. sent (snd (agent_loop e i ms s)) = sent s @ reqs \<and> length reqs \<le> 10 - i"
proof (induction e i ms s rule: agent_loop.induct)
  case (1 e i ms s)
  show ?case
  proof (cases "i < 10")
    case False then show ?thesis by (simp add: agent_loop.simps)
  next
    case True
    obtain r s' where b: "iteration_body e ms s = (r, s')" by (cases "iteration_body e ms s")
    have s': "sent s' = sent s @ [ms]" using sent_iteration_body[of e ms s] b by simp
    show ?thesis
    proof (cases r)
      case (Inl m)
      with True b s' show ?thesis by (simp add: agent_loop.simps)
    next
      case (Inr ms')
      from "1.IH"[OF True b[symmetric] Inr] obtain reqs where
        "sent (snd (agent_loop e (Suc i) ms' s')) = sent s' @ reqs" "length reqs \<le> 10 - Suc i" by blast
      with True b s' Inr show ?thesis by (simp add: agent_loop.simps[of e i])
    qed
  qed
qed


lemma tool_calls_loop_append:
  "tool_calls_loop e (pre @ rest) ms s =
     (case tool_calls_loop e pre ms s of
        (Inl m, s') \<Rightarrow> (Inl m, s')
      | (Inr ms', s') \<Rightarrow> tool_calls_loop e rest ms' s')"
proof (induction pre arbitrary: ms s)
  case Nil then show ?case by simp
next
  case (Cons tc pre)
  show ?case
  proof (cases "out_of_band e tc ms")
    case None
    obtain tm s' where ex: "execute_tool e tc s = (tm, s')" by (cases "execute_tool e tc s")
    with None Cons.IH[of "ms @ [tm]" s'] show ?thesis by simp
  next
    case (Some m) then show ?thesis by simp
  qed
qed

lemma scripted_ExecuteToolByName:
  "snd (ExecuteToolByName (map (\<lambda>(name, f). \<lparr>Name = name, Function = (\<lambda>w argsJSON. (f argsJSON, w))\<rparr>) tools) n a w) = w"
  by (induction tools) (auto split: prod.splits)

lemma scripted_execute_tool:
  "world (snd (execute_tool (scripted replies tools urc umw) tc s)) = world s"
proof -
  let ?ts = "map (\<lambda>(name, f). \<lparr>Name = name, Function = (\<lambda>w argsJSON. (f argsJSON, w))\<rparr>) tools"
  obtain r w' where x: "ExecuteToolByName ?ts (FunctionName tc) (FunctionArguments tc) (world s) = (r, w')"
    by (cases "ExecuteToolByName ?ts (FunctionName tc) (FunctionArguments tc) (world s)")
  have "w' = world s"
    using scripted_ExecuteToolByName[of tools "FunctionName tc" "FunctionArguments tc" "world s"] x by simp
  with x show ?thesis by (simp add: execute_tool_def scripted_def Let_def)
qed

lemma tool_calls_loop_sync:
  "list_all (synchronous e) tcs \<Longrightarrow> \<exists>ms' s'. tool_calls_loop e tcs ms s = (Inr ms', s')"
proof (induction tcs arbitrary: ms s)
  case Nil then show ?case by simp
next
  case (Cons tc tcs)
  then have n: "out_of_band e tc ms = None" and r: "list_all (synchronous e) tcs"
    by (simp_all add: out_of_band_None)
  obtain tm s' where ex: "execute_tool e tc s = (tm, s')" by (cases "execute_tool e tc s")
  from Cons.IH[OF r, of "ms @ [tm]" s'] n ex show ?case by simp
qed

lemma world_tool_calls_loop_scripted:
  "world (snd (tool_calls_loop (scripted replies tools urc umw) tcs ms s)) = world s"
proof (induction tcs arbitrary: ms s)
  case Nil then show ?case by simp
next
  case (Cons tc tcs)
  let ?e = "scripted replies tools urc umw"
  show ?case
  proof (cases "out_of_band ?e tc ms")
    case None
    obtain tm s' where ex: "execute_tool ?e tc s = (tm, s')" by (cases "execute_tool ?e tc s")
    have "world s' = world s" using scripted_execute_tool[of replies tools urc umw tc s] ex by simp
    with None ex Cons.IH[of "ms @ [tm]" s'] show ?thesis by simp
  next
    case (Some m) then show ?thesis by simp
  qed
qed

lemma scripted_body_tool:
  assumes "tool_call_reply (scripted replies tools urc umw) (replies (world s))"
  shows "\<exists>ms' s'. iteration_body (scripted replies tools urc umw) ms s = (Inr ms', s')
           \<and> world s' = Suc (world s) \<and> sent s' = sent s @ [ms]"
proof -
  let ?e = "scripted replies tools urc umw"
  from assms obtain c cs where r: "replies (world s) = Inr (c # cs)"
    and ne: "ToolCalls (Message c) \<noteq> []" and sy: "list_all (synchronous ?e) (ToolCalls (Message c))"
    by (auto simp: tool_call_reply_def split: sum.splits list.splits)
  let ?s1 = "s\<lparr>world := Suc (world s), sent := sent s @ [ms]\<rparr>"
  let ?a = "\<lparr>Role = ChatMessageRoleAssistant, Content = Content (Message c), ToolCalls = ToolCalls (Message c), ToolCallID = []\<rparr>"
  have b: "iteration_body ?e ms s = tool_calls_loop ?e (ToolCalls (Message c)) (ms @ [?a]) ?s1"
    using r ne by (simp add: iteration_body_def scripted_def Let_def)
  from tool_calls_loop_sync[OF sy, of "ms @ [?a]" ?s1] obtain ms' s' where
    t: "tool_calls_loop ?e (ToolCalls (Message c)) (ms @ [?a]) ?s1 = (Inr ms', s')" by blast
  have "world s' = world ?s1" using world_tool_calls_loop_scripted[of replies tools urc umw "ToolCalls (Message c)" "ms @ [?a]" ?s1] t by simp
  moreover have "sent s' = sent ?s1" using sent_tool_calls_loop[of ?e "ToolCalls (Message c)" "ms @ [?a]" ?s1] t by simp
  ultimately show ?thesis using b t by simp
qed

lemma scripted_body_content:
  assumes "content_reply (replies (world s))"
  shows "\<exists>content h. iteration_body (scripted replies tools urc umw) ms s =
           (Inl (AiResponseMsg content h), s\<lparr>world := Suc (world s), sent := sent s @ [ms]\<rparr>)"
  using assms
  by (auto simp: content_reply_def iteration_body_def scripted_def Let_def split: sum.splits list.splits)

lemma scripted_loop_max:
  assumes "\<And>i. i < 10 \<Longrightarrow> tool_call_reply (scripted replies tools urc umw) (replies i)"
  shows "world s = k \<Longrightarrow> k \<le> 10 \<Longrightarrow>
         \<exists>s'. agent_loop (scripted replies tools urc umw) k ms s =
                (ErrMsg ''max iterations reached - possible infinite loop'', s')
              \<and> world s' = 10 \<and> length (sent s') = length (sent s) + (10 - k)"
proof (induction "10 - k" arbitrary: k ms s)
  case 0
  then have "k = 10" by simp
  with 0 show ?case by (simp add: agent_loop.simps)
next
  case (Suc n)
  then have lt: "k < 10" by simp
  let ?e = "scripted replies tools urc umw"
  from scripted_body_tool[of replies tools urc umw s ms] assms[OF lt] Suc.prems(1)
  obtain ms' s1 where b: "iteration_body ?e ms s = (Inr ms', s1)"
    and w: "world s1 = Suc k" and se: "sent s1 = sent s @ [ms]" by auto
  have "n = 10 - Suc k" using Suc.hyps(2) by simp
  from Suc.hyps(1)[OF this w, of ms'] lt have
    "\<exists>s'. agent_loop ?e (Suc k) ms' s1 = (ErrMsg ''max iterations reached - possible infinite loop'', s')
       \<and> world s' = 10 \<and> length (sent s') = length (sent s1) + (10 - Suc k)" by simp
  then obtain s' where
    "agent_loop ?e (Suc k) ms' s1 = (ErrMsg ''max iterations reached - possible infinite loop'', s')"
    "world s' = 10" "length (sent s') = length (sent s1) + (10 - Suc k)" by blast
  with b lt se show ?case by (simp add: agent_loop.simps[of ?e k])
qed

lemma scripted_loop_final:
  assumes "\<And>i. i < 9 \<Longrightarrow> tool_call_reply (scripted replies tools urc umw) (replies i)"
    and "content_reply (replies 9)"
  shows "world s = k \<Longrightarrow> k \<le> 9 \<Longrightarrow>
         \<exists>content h s'. agent_loop (scripted replies tools urc umw) k ms s =
                (AiResponseMsg content h, s')
              \<and> world s' = 10 \<and> length (sent s') = length (sent s) + (10 - k)"
proof (induction "9 - k" arbitrary: k ms s)
  case 0
  then have k: "k = 9" by simp
  from scripted_body_content[of replies s tools urc umw ms] assms(2) 0(2) k
  obtain content h where "iteration_body (scripted replies tools urc umw) ms s =
           (Inl (AiResponseMsg content h), s\<lparr>world := Suc (world s), sent := sent s @ [ms]\<rparr>)" by auto
  with k 0(2) show ?case by (simp add: agent_loop.simps[of _ 9])
next
  case (Suc n)
  then have lt: "k < 9" by simp
  let ?e = "scripted replies tools urc umw"
  from scripted_body_tool[of replies tools urc umw s ms] assms(1)[OF lt] Suc.prems(1)
  obtain ms' s1 where b: "iteration_body ?e ms s = (Inr ms', s1)"
    and w: "world s1 = Suc k" and se: "sent s1 = sent s @ [ms]" by auto
  have "n = 9 - Suc k" using Suc.hyps(2) by simp
  from Suc.hyps(1)[OF this w, of ms'] lt have
    "\<exists>content h s'. agent_loop ?e (Suc k) ms' s1 = (AiResponseMsg content h, s')
       \<and> world s' = 10 \<and> length (sent s') = length (sent s1) + (10 - Suc k)" by simp
  then obtain content h s' where
    "agent_loop ?e (Suc k) ms' s1 = (AiResponseMsg content h, s')"
    "world s' = 10" "length (sent s') = length (sent s1) + (10 - Suc k)" by blast
  with b lt se show ?case by (simp add: agent_loop.simps[of ?e k])
qed

lemma out_of_band_history: "out_of_band e tc ms = Some m \<Longrightarrow> returned_history m = Some ms"
  by (auto simp: out_of_band_def returned_history_def split: option.splits if_splits)

lemma tool_calls_loop_prefix:
  "tool_calls_loop e tcs ms s = (r, s') \<Longrightarrow>
     (case r of Inr ms' \<Rightarrow> prefix ms ms'
              | Inl m \<Rightarrow> \<exists>h. returned_history m = Some h \<and> prefix ms h)"
proof (induction tcs arbitrary: ms s)
  case Nil then show ?case by auto
next
  case (Cons tc tcs)
  show ?case
  proof (cases "out_of_band e tc ms")
    case (Some m)
    with Cons.prems out_of_band_history[OF Some] show ?thesis by auto
  next
    case None
    obtain tm s1 where ex: "execute_tool e tc s = (tm, s1)" by (cases "execute_tool e tc s")
    with None Cons.prems have "tool_calls_loop e tcs (ms @ [tm]) s1 = (r, s')" by simp
    from Cons.IH[OF this] show ?thesis
      by (auto split: sum.splits dest: append_prefixD)
  qed
qed

lemma iteration_body_prefix:
  "iteration_body e ms s = (r, s') \<Longrightarrow>
     (case r of Inr ms' \<Rightarrow> prefix ms ms'
              | Inl m \<Rightarrow> \<forall>h. returned_history m = Some h \<longrightarrow> prefix ms h)"
proof -
  assume b: "iteration_body e ms s = (r, s')"
  obtain resp w' where c: "CreateChatCompletion e (world s) ms = (resp, w')"
    by (cases "CreateChatCompletion e (world s) ms")
  show ?thesis
  proof (cases resp)
    case (Inl err)
    with b c show ?thesis by (auto simp: iteration_body_def Let_def returned_history_def)
  next
    case (Inr chs)
    show ?thesis
    proof (cases chs)
      case Nil
      with Inr b c show ?thesis by (auto simp: iteration_body_def Let_def returned_history_def)
    next
      case (Cons ch rest)
      show ?thesis
      proof (cases "ToolCalls (Message ch) = []")
        case True
        with Cons Inr b c show ?thesis by (auto simp: iteration_body_def Let_def returned_history_def)
      next
        case False
        let ?a = "\<lparr>Role = ChatMessageRoleAssistant, Content = Content (Message ch),
                   ToolCalls = ToolCalls (Message ch), ToolCallID = []\<rparr>"
        from False Cons Inr b c have
          "tool_calls_loop e (ToolCalls (Message ch)) (ms @ [?a]) (s\<lparr>world := w', sent := sent s @ [ms]\<rparr>) = (r, s')"
          by (simp add: iteration_body_def Let_def)
        from tool_calls_loop_prefix[OF this] show ?thesis
          by (auto split: sum.splits dest: append_prefixD)
      qed
    qed
  qed
qed

lemma agent_loop_prefix:
  "\<exists>reqs. sent (snd (agent_loop e i ms s)) = sent s @ reqs \<and> (\<forall>r\<in>set reqs. prefix ms r)
     \<and> (\<forall>h. returned_history (fst (agent_loop e i ms s)) = Some h \<longrightarrow> prefix ms h)"
proof (induction e i ms s rule: agent_loop.induct)
  case (1 e i ms s)
  show ?case
  proof (cases "i < 10")
    case False then show ?thesis by (simp add: agent_loop.simps returned_history_def)
  next
    case True
    obtain r s' where b: "iteration_body e ms s = (r, s')" by (cases "iteration_body e ms s")
    have s': "sent s' = sent s @ [ms]" using sent_iteration_body[of e ms s] b by simp
    note p = iteration_body_prefix[OF b]
    show ?thesis
    proof (cases r)
      case (Inl m)
      with True b s' p show ?thesis by (simp add: agent_loop.simps[of e i])
    next
      case (Inr ms')
      with p have pm: "prefix ms ms'" by simp
      from "1.IH"[OF True b[symmetric] Inr] obtain reqs where
        r: "sent (snd (agent_loop e (Suc i) ms' s')) = sent s' @ reqs"
        and q: "\<forall>r\<in>set reqs. prefix ms' r"
        and h: "\<forall>h. returned_history (fst (agent_loop e (Suc i) ms' s')) = Some h \<longrightarrow> prefix ms' h"
        by blast
      have e: "agent_loop e i ms s = agent_loop e (Suc i) ms' s'"
        using True b Inr by (simp add: agent_loop.simps[of e i])
      have "sent (snd (agent_loop e i ms s)) = sent s @ (ms # reqs)" using e r s' by simp
      moreover have "\<forall>r\<in>set (ms # reqs). prefix ms r" using q pm by (auto intro: prefix_order.trans)
      moreover have "\<forall>h. returned_history (fst (agent_loop e i ms s)) = Some h \<longrightarrow> prefix ms h"
        using e h pm by (auto intro: prefix_order.trans)
      ultimately show ?thesis by blast
    qed
  qed
qed

lemma execute_tool_error:
  "ExecuteToolByName (GetAllToolDefinitions e) (FunctionName tc) (FunctionArguments tc) (world s)
     = (Inl err, w2) \<Longrightarrow>
   execute_tool e tc s =
     (\<lparr>Role = ''tool'', Content = ''Error executing tool: '' @ err, ToolCalls = [],
       ToolCallID = ID tc\<rparr>, s\<lparr>world := w2\<rparr>)"
  by (simp add: execute_tool_def ChatMessageRoleTool_def)

lemma tool_calls_loop_sync_step:
  assumes "tool_calls_loop e pre ms s = (Inr ms1, s1)" and "synchronous e tc"
  shows "tool_calls_loop e (pre @ tc # post) ms s =
           tool_calls_loop e post (ms1 @ [fst (execute_tool e tc s1)]) (snd (execute_tool e tc s1))"
proof -
  have "out_of_band e tc ms1 = None" using assms(2) by (simp add: out_of_band_None)
  with assms(1) show ?thesis by (simp add: tool_calls_loop_append split: prod.splits)
qed

lemma tool_calls_loop_results:
  "tool_calls_loop e tcs ms s = (Inr ms1, s1) \<Longrightarrow>
   \<exists>rs. ms1 = ms @ rs \<and> map ToolCallID rs = map ID tcs \<and> list_all (\<lambda>r. Role r = ''tool'') rs"
proof (induction tcs arbitrary: ms s)
  case Nil then show ?case by simp
next
  case (Cons tc tcs)
  show ?case
  proof (cases "out_of_band e tc ms")
    case (Some m) with Cons.prems show ?thesis by simp
  next
    case None
    obtain tm s' where ex: "execute_tool e tc s = (tm, s')" by (cases "execute_tool e tc s")
    then have tm: "Role tm = ''tool''" "ToolCallID tm = ID tc"
      by (auto simp: execute_tool_def Let_def ChatMessageRoleTool_def split: prod.splits)
    from None ex Cons.prems have "tool_calls_loop e tcs (ms @ [tm]) s' = (Inr ms1, s1)" by simp
    from Cons.IH[OF this] obtain rs where "ms1 = (ms @ [tm]) @ rs" "map ToolCallID rs = map ID tcs"
      "list_all (\<lambda>r. Role r = ''tool'') rs" by blast
    with tm show ?thesis by (intro exI[of _ "tm # rs"]) simp
  qed
qed

lemma tool_error_core:
  assumes it: "iteration < 10"
    and reply: "CreateChatCompletion e (world s) ms = (Inr (choice # choices), w')"
    and calls: "ToolCalls (Message choice) = pre @ tc # post"
    and pre: "tool_calls_loop e pre
                (ms @ [\<lparr>Role = ''assistant'', Content = Content (Message choice),
                         ToolCalls = ToolCalls (Message choice), ToolCallID = []\<rparr>])
                (s\<lparr>world := w', sent := sent s @ [ms]\<rparr>) = (Inr ms1, s1)"
    and sync: "synchronous e tc"
    and err: "ExecuteToolByName (GetAllToolDefinitions e) (FunctionName tc)
                (FunctionArguments tc) (world s1) = (Inl err, w2)"
    and tm: "toolMsg = \<lparr>Role = ''tool'', Content = ''Error executing tool: '' @ err,
                         ToolCalls = [], ToolCallID = ID tc\<rparr>"
  shows "Content toolMsg \<noteq> []"
    and "agent_loop e iteration ms s =
           (case tool_calls_loop e post (ms1 @ [toolMsg]) (s1\<lparr>world := w2\<rparr>) of
              (Inl m, s') \<Rightarrow> (m, s')
            | (Inr ms', s') \<Rightarrow> agent_loop e (Suc iteration) ms' s')"
    and "\<exists>reqs. sent (snd (agent_loop e iteration ms s)) = sent s @ ms # reqs
                 \<and> (\<forall>r\<in>set reqs. toolMsg \<in> set r)"
    and "\<forall>h. returned_history (fst (agent_loop e iteration ms s)) = Some h \<longrightarrow> toolMsg \<in> set h"
proof -
  show "Content toolMsg \<noteq> []" using tm by simp
  let ?a = "\<lparr>Role = ''assistant'', Content = Content (Message choice),
             ToolCalls = ToolCalls (Message choice), ToolCallID = []\<rparr>"
  let ?s0 = "s\<lparr>world := w', sent := sent s @ [ms]\<rparr>"
  let ?s2 = "s1\<lparr>world := w2\<rparr>"
  have ex: "execute_tool e tc s1 = (toolMsg, ?s2)" using execute_tool_error[OF err] tm by simp
  have body: "iteration_body e ms s = tool_calls_loop e post (ms1 @ [toolMsg]) ?s2"
    using reply calls tool_calls_loop_sync_step[OF pre sync, of post] ex
    by (simp add: iteration_body_def Let_def ChatMessageRoleAssistant_def)
  show loop: "agent_loop e iteration ms s =
           (case tool_calls_loop e post (ms1 @ [toolMsg]) ?s2 of
              (Inl m, s') \<Rightarrow> (m, s')
            | (Inr ms', s') \<Rightarrow> agent_loop e (Suc iteration) ms' s')"
    using it body by (simp add: agent_loop.simps[of e iteration])
  obtain r s' where t: "tool_calls_loop e post (ms1 @ [toolMsg]) ?s2 = (r, s')"
    by (cases "tool_calls_loop e post (ms1 @ [toolMsg]) ?s2")
  have s1: "sent s1 = sent s @ [ms]" using sent_tool_calls_loop[of e pre "ms @ [?a]" ?s0] pre by simp
  have s': "sent s' = sent s @ [ms]" using sent_tool_calls_loop[of e post "ms1 @ [toolMsg]" ?s2] t s1 by simp
  note p = tool_calls_loop_prefix[OF t]
  have mem: "\<And>xs. prefix (ms1 @ [toolMsg]) xs \<Longrightarrow> toolMsg \<in> set xs"
    by (auto simp: prefix_def)
  show "\<exists>reqs. sent (snd (agent_loop e iteration ms s)) = sent s @ ms # reqs
                 \<and> (\<forall>r\<in>set reqs. toolMsg \<in> set r)"
  proof (cases r)
    case (Inl m)
    with loop t s' show ?thesis by simp
  next
    case (Inr ms')
    with p have pm: "prefix (ms1 @ [toolMsg]) ms'" by simp
    from agent_loop_prefix[of e "Suc iteration" ms' s'] obtain reqs where
      "sent (snd (agent_loop e (Suc iteration) ms' s')) = sent s' @ reqs" "\<forall>r\<in>set reqs. prefix ms' r"
      by blast
    with loop t Inr s' pm show ?thesis
      by (auto intro!: exI[of _ reqs] mem intro: prefix_order.trans)
  qed
  show "\<forall>h. returned_history (fst (agent_loop e iteration ms s)) = Some h \<longrightarrow> toolMsg \<in> set h"
  proof (cases r)
    case (Inl m)
    with p loop t show ?thesis by (auto intro: mem)
  next
    case (Inr ms')
    with p have pm: "prefix (ms1 @ [toolMsg]) ms'" by simp
    from agent_loop_prefix[of e "Suc iteration" ms' s'] have
      "\<forall>h. returned_history (fst (agent_loop e (Suc iteration) ms' s')) = Some h \<longrightarrow> prefix ms' h"
      by blast
    with loop t Inr pm show ?thesis
      by (auto intro!: mem intro: prefix_order.trans)
  qed
qed

lemma agent_loop_sends:
  assumes "i < 10"
  shows "\<exists>reqs. sent (snd (agent_loop e i ms s)) = sent s @ ms # reqs"
proof -
  obtain r s' where b: "iteration_body e ms s = (r, s')" by (cases "iteration_body e ms s")
  have s': "sent s' = sent s @ [ms]" using sent_iteration_body[of e ms s] b by simp
  show ?thesis
  proof (cases r)
    case (Inl m)
    with assms b s' show ?thesis by (simp add: agent_loop.simps[of e i])
  next
    case (Inr ms')
    from sent_agent_loop[of e "Suc i" ms' s'] obtain reqs where
      "sent (snd (agent_loop e (Suc i) ms' s')) = sent s' @ reqs" by blast
    with assms b s' Inr show ?thesis by (simp add: agent_loop.simps[of e i])
  qed
qed

lemma tool_error_next_request:
  assumes it: "iteration < 10"
    and reply: "CreateChatCompletion e (world s) ms = (Inr (choice # choices), w')"
    and calls: "ToolCalls (Message choice) = pre @ tc # post"
    and pre: "tool_calls_loop e pre
                (ms @ [\<lparr>Role = ''assistant'', Content = Content (Message choice),
                         ToolCalls = ToolCalls (Message choice), ToolCallID = []\<rparr>])
                (s\<lparr>world := w', sent := sent s @ [ms]\<rparr>) = (Inr ms1, s1)"
    and sync: "synchronous e tc"
    and err: "ExecuteToolByName (GetAllToolDefinitions e) (FunctionName tc)
                (FunctionArguments tc) (world s1) = (Inl err, w2)"
    and tm: "toolMsg = \<lparr>Role = ''tool'', Content = ''Error executing tool: '' @ err,
                         ToolCalls = [], ToolCallID = ID tc\<rparr>"
    and post: "list_all (synchronous e) post" and nxt: "Suc iteration < 10"
  shows "\<exists>next rest. sent (snd (agent_loop e iteration ms s)) = sent s @ ms # next # rest
            \<and> toolMsg \<in> set next"
proof -
  let ?s2 = "s1\<lparr>world := w2\<rparr>"
  note core = tool_error_core[OF it reply calls pre sync err tm]
  from tool_calls_loop_sync[OF post, of "ms1 @ [toolMsg]" ?s2] obtain ms' s' where
    t: "tool_calls_loop e post (ms1 @ [toolMsg]) ?s2 = (Inr ms', s')" by blast
  have loop: "agent_loop e iteration ms s = agent_loop e (Suc iteration) ms' s'"
    using core(2) t by simp
  have "prefix (ms1 @ [toolMsg]) ms'" using tool_calls_loop_prefix[OF t] by simp
  then have mem: "toolMsg \<in> set ms'" by (auto simp: prefix_def)
  let ?a = "\<lparr>Role = ''assistant'', Content = Content (Message choice),
             ToolCalls = ToolCalls (Message choice), ToolCallID = []\<rparr>"
  have "sent s1 = sent s @ [ms]"
    using sent_tool_calls_loop[of e pre "ms @ [?a]" "s\<lparr>world := w', sent := sent s @ [ms]\<rparr>"] pre
    by simp
  then have s': "sent s' = sent s @ [ms]"
    using sent_tool_calls_loop[of e post "ms1 @ [toolMsg]" ?s2] t by simp
  from agent_loop_sends[OF nxt, of e ms' s'] obtain rest where
    "sent (snd (agent_loop e (Suc iteration) ms' s')) = sent s' @ ms' # rest" by blast
  with loop s' mem show ?thesis by auto
qed

lemma tool_error_last_pass:
  assumes it: "iteration < 10"
    and reply: "CreateChatCompletion e (world s) ms = (Inr (choice # choices), w')"
    and calls: "ToolCalls (Message choice) = pre @ tc # post"
    and pre: "tool_calls_loop e pre
                (ms @ [\<lparr>Role = ''assistant'', Content = Content (Message choice),
                         ToolCalls = ToolCalls (Message choice), ToolCallID = []\<rparr>])
                (s\<lparr>world := w', sent := sent s @ [ms]\<rparr>) = (Inr ms1, s1)"
    and sync: "synchronous e tc"
    and err: "ExecuteToolByName (GetAllToolDefinitions e) (FunctionName tc)
                (FunctionArguments tc) (world s1) = (Inl err, w2)"
    and tm: "toolMsg = \<lparr>Role = ''tool'', Content = ''Error executing tool: '' @ err,
                         ToolCalls = [], ToolCallID = ID tc\<rparr>"
    and post: "list_all (synchronous e) post" and last: "Suc iteration = 10"
  shows "fst (agent_loop e iteration ms s) = ErrMsg ''max iterations reached - possible infinite loop''
         \<and> sent (snd (agent_loop e iteration ms s)) = sent s @ [ms]"
proof -
  let ?s2 = "s1\<lparr>world := w2\<rparr>"
  note core = tool_error_core[OF it reply calls pre sync err tm]
  from tool_calls_loop_sync[OF post, of "ms1 @ [toolMsg]" ?s2] obtain ms' s' where
    t: "tool_calls_loop e post (ms1 @ [toolMsg]) ?s2 = (Inr ms', s')" by blast
  have loop: "agent_loop e iteration ms s = agent_loop e 10 ms' s'"
    using core(2) t last by simp
  let ?a = "\<lparr>Role = ''assistant'', Content = Content (Message choice),
             ToolCalls = ToolCalls (Message choice), ToolCallID = []\<rparr>"
  have "sent s1 = sent s @ [ms]"
    using sent_tool_calls_loop[of e pre "ms @ [?a]" "s\<lparr>world := w', sent := sent s @ [ms]\<rparr>"] pre
    by simp
  then have s': "sent s' = sent s @ [ms]"
    using sent_tool_calls_loop[of e post "ms1 @ [toolMsg]" ?s2] t by simp
  have "agent_loop e 10 ms' s' = (ErrMsg ''max iterations reached - possible infinite loop'', s')"
    by (simp add: agent_loop.simps[of e 10])
  with loop s' show ?thesis by simp
qed

section \<open>Facts about the UI state machine\<close>

lemma autocomplete_loop_take:
  "length acc < 10 \<Longrightarrow>
   autocomplete_loop files search acc =
     take 10 (acc @ filter (\<lambda>f. search = [] \<or> Contains f search) files)"
  by (induction files arbitrary: acc) (auto simp: Let_def take_Cons')

lemma autocomplete_loop_eq:
  "autocomplete_loop files search [] = take 10 (filter (\<lambda>f. search = [] \<or> Contains f search) files)"
  using autocomplete_loop_take[of "[]" files search] by simp

lemma subseq_take_filter: "subseq (take n (filter P xs)) xs"
  by (meson sublist_imp_subseq sublist_take subseq_filter_left subseq_order.trans)

lemma known_file_iff: "known_file files path \<longleftrightarrow> path \<in> set files"
  by (induction files) auto

lemma update_autocomplete_inv:
  "0 \<le> AutocompleteIdx m \<Longrightarrow> autocomplete_inv (update_autocomplete m)"
  by (auto simp: update_autocomplete_def autocomplete_inv_def Let_def)

lemma after_switch_inv:
  "0 \<le> AutocompleteIdx m \<Longrightarrow>
   \<exists>m' cmds'. after_switch ta msg m cmds = Inr (m', cmds') \<and> autocomplete_inv m'"
  by (simp add: after_switch_def Let_def update_autocomplete_inv)

lemma insert_selected_inv:
  "autocomplete_inv m \<Longrightarrow> ShowAutocomplete m \<Longrightarrow>
   \<exists>m'. insert_selected m = Inr m' \<and> autocomplete_inv m'"
  by (auto simp: insert_selected_def autocomplete_inv_def Let_def)

lemma submit_inv: "autocomplete_inv m \<Longrightarrow> autocomplete_inv (fst (submit m))"
  by (auto simp: submit_def autocomplete_inv_def Let_def)

lemma Update_key_inv:
  assumes "autocomplete_inv m"
  shows "\<exists>m' cmds. Update_key ta m k alt = Inr (m', cmds) \<and> autocomplete_inv m'"
proof -
  have i: "0 \<le> AutocompleteIdx m" using assms by (simp add: autocomplete_inv_def)
  note a = after_switch_inv[OF i, of ta "KeyMsg k alt" "[]"]
  consider "k = ''ctrl+c'' \<or> k = ''esc''" | "k = ''up''" | "k = ''down''" | "k = ''tab''" | "k = ''enter''"
    | "k \<noteq> ''ctrl+c''" "k \<noteq> ''esc''" "k \<noteq> ''up''" "k \<noteq> ''down''" "k \<noteq> ''tab''" "k \<noteq> ''enter''"
    by blast
  then show ?thesis
  proof cases
    case 1 then show ?thesis using assms by (auto simp: Update_key_def autocomplete_inv_def)
  next
    case 2 then show ?thesis using assms a by (auto simp: Update_key_def autocomplete_inv_def)
  next
    case 3 then show ?thesis using assms a by (auto simp: Update_key_def autocomplete_inv_def)
  next
    case 4
    show ?thesis
    proof (cases "ShowAutocomplete m \<and> length (AutocompleteList m) > 0")
      case True
      with insert_selected_inv[OF assms] obtain m' where "insert_selected m = Inr m'" "autocomplete_inv m'" by blast
      with 4 True show ?thesis by (simp add: Update_key_def)
    next
      case False with 4 a show ?thesis by (auto simp: Update_key_def)
    qed
  next
    case 5
    show ?thesis
    proof (cases "ShowAutocomplete m \<and> length (AutocompleteList m) > 0")
      case True
      with insert_selected_inv[OF assms] obtain m' where "insert_selected m = Inr m'" "autocomplete_inv m'" by blast
      with 5 True show ?thesis by (simp add: Update_key_def)
    next
      case False
      show ?thesis
      proof (cases "\<not> alt \<and> Input m \<noteq> []")
        case True
        with 5 False submit_inv[OF assms] show ?thesis
          by (cases "submit m") (auto simp: Update_key_def)
      next
        case F2: False
        with 5 False a show ?thesis by (auto simp: Update_key_def)
      qed
    qed
  next
    case 6 then show ?thesis using a by (simp add: Update_key_def)
  qed
qed

lemma Update_inv:
  assumes "autocomplete_inv m"
  shows "\<exists>m' cmds. Update ta m msg = Inr (m', cmds) \<and> autocomplete_inv m'"
proof -
  have i: "0 \<le> AutocompleteIdx m" using assms by (simp add: autocomplete_inv_def)
  show ?thesis
  proof (cases msg)
    case (KeyMsg k alt)
    then show ?thesis using Update_key_inv[OF assms] by (simp add: Update_def)
  next
    case (WindowControlMsg a t i h)
    then show ?thesis using assms by (auto simp: Update_def autocomplete_inv_def Let_def)
  next
    case (RunCommandMsg c a i h)
    then show ?thesis using assms by (auto simp: Update_def autocomplete_inv_def Let_def)
  next
    case (ProcessOutputMsg l)
    then show ?thesis using assms by (auto simp: Update_def autocomplete_inv_def Let_def)
  next
    case (ProcessDoneMsg err i)
    then show ?thesis using assms by (auto simp: Update_def autocomplete_inv_def Let_def)
  next
    case AiCompleteMsg
    then show ?thesis using i
      by (auto simp: Update_def after_switch_def Let_def update_autocomplete_inv split: list.splits)
  qed (use i in \<open>auto simp: Update_def after_switch_def Let_def update_autocomplete_inv\<close>)
qed

lemma run_inv:
  "autocomplete_inv m \<Longrightarrow> \<exists>m'. run ta m msgs = Inr m' \<and> autocomplete_inv m'"
proof (induction msgs arbitrary: m)
  case Nil then show ?case by simp
next
  case (Cons msg msgs)
  from Update_inv[OF Cons.prems, of ta msg] obtain m1 cmds where
    u: "Update ta m msg = Inr (m1, cmds)" and i: "autocomplete_inv m1" by blast
  from Cons.IH[OF i] u show ?case by simp
qed

lemma Initial_inv: "autocomplete_inv (InitialModel files sp)"
  by (simp add: InitialModel_def autocomplete_inv_def)

section \<open>The bound on network calls\<close>

lemma read_call_reply:
  "tool_call_reply (scripted r sample_tools sample_urc sample_umw) (Inr [tool_choice [read_call]])"
  by (simp add: tool_call_reply_def tool_choice_def read_call_def synchronous_def out_of_band_def)

text \<open>
  C1, as stated, fails: when the endpoint answers ten requests in a row with a tool-call
  reply (and would answer the eleventh with content), \<open>InvokeAI\<close> does not return the final
  response; the tenth pass uses up the loop and the failure "max iterations" is returned.
\<close>

theorem invoke_ten_tool_replies_counterexample:
  "fst (InvokeAI (scripted ten_then_content sample_tools sample_urc sample_umw) ''gpt-4o'' []
          \<lparr>world = 0, sent = []\<rparr>)
     = ErrMsg ''max iterations reached - possible infinite loop''"
proof -
  have "\<And>i. i < 10 \<Longrightarrow>
          tool_call_reply (scripted ten_then_content sample_tools sample_urc sample_umw)
            (ten_then_content i)"
    by (simp add: ten_then_content_def read_call_reply)
  from scripted_loop_max[OF this, of "\<lparr>world = 0, sent = []\<rparr>" 0 "[]"]
  show ?thesis by (auto simp: InvokeAI_def)
qed

text \<open>
  C1, amended. \<open>InvokeAI\<close> is a total function, and for every environment (so for every
  sequence of replies) it adds at most 10 requests to those sent before. When the first
  nine replies are tool-call replies and the tenth is a content reply, it returns the
  final response after exactly 10 requests; when the first ten replies are tool-call
  replies, it returns the failure "max iterations" after exactly 10 requests, and an
  eleventh request is never made.
\<close>

theorem invoke_at_most_ten_calls:
  "(\<exists>reqs. sent (snd (InvokeAI e modelName history s)) = sent s @ reqs \<and> length reqs \<le> 10)
   \<and> (modelName \<noteq> [] \<and> (\<forall>i<9. tool_call_reply (scripted replies tools urc umw) (replies i))
        \<and> content_reply (replies 9) \<longrightarrow>
      (\<exists>content h reqs.
          InvokeAI (scripted replies tools urc umw) modelName history \<lparr>world = 0, sent = []\<rparr>
            = (AiResponseMsg content h, \<lparr>world = 10, sent = reqs\<rparr>) \<and> length reqs = 10))
   \<and> (modelName \<noteq> [] \<and> (\<forall>i<10. tool_call_reply (scripted replies tools urc umw) (replies i))
        \<longrightarrow>
      (\<exists>reqs.
          InvokeAI (scripted replies tools urc umw) modelName history \<lparr>world = 0, sent = []\<rparr>
            = (ErrMsg ''max iterations reached - possible infinite loop'',
               \<lparr>world = 10, sent = reqs\<rparr>) \<and> length reqs = 10))"
proof (intro conjI impI)
  show "\<exists>reqs. sent (snd (InvokeAI e modelName history s)) = sent s @ reqs \<and> length reqs \<le> 10"
    using sent_agent_loop[of e 0 history s] by (auto simp: InvokeAI_def)
next
  let ?e = "scripted replies tools urc umw"
  assume a: "modelName \<noteq> [] \<and> (\<forall>i<9. tool_call_reply ?e (replies i)) \<and> content_reply (replies 9)"
  then have "\<And>i. i < 9 \<Longrightarrow> tool_call_reply ?e (replies i)" by simp
  from scripted_loop_final[OF this, of "\<lparr>world = 0, sent = []\<rparr>" 0 history] a
  obtain content h s' where
    r: "agent_loop ?e 0 history \<lparr>world = 0, sent = []\<rparr> = (AiResponseMsg content h, s')"
    and w: "world s' = 10" and l: "length (sent s') = 10" by auto
  have "s' = \<lparr>world = 10, sent = sent s'\<rparr>" using w by (cases s') simp
  with r l a show "\<exists>content h reqs.
          InvokeAI ?e modelName history \<lparr>world = 0, sent = []\<rparr>
            = (AiResponseMsg content h, \<lparr>world = 10, sent = reqs\<rparr>) \<and> length reqs = 10"
    by (metis InvokeAI_def)
next
  let ?e = "scripted replies tools urc umw"
  assume a: "modelName \<noteq> [] \<and> (\<forall>i<10. tool_call_reply ?e (replies i))"
  then have "\<And>i. i < 10 \<Longrightarrow> tool_call_reply ?e (replies i)" by simp
  from scripted_loop_max[OF this, of "\<lparr>world = 0, sent = []\<rparr>" 0 history]
  obtain s' where
    r: "agent_loop ?e 0 history \<lparr>world = 0, sent = []\<rparr>
          = (ErrMsg ''max iterations reached - possible infinite loop'', s')"
    and w: "world s' = 10" and l: "length (sent s') = 10" by auto
  have "s' = \<lparr>world = 10, sent = sent s'\<rparr>" using w by (cases s') simp
  with r l a show "\<exists>reqs.
          InvokeAI ?e modelName history \<lparr>world = 0, sent = []\<rparr>
            = (ErrMsg ''max iterations reached - possible infinite loop'',
               \<lparr>world = 10, sent = reqs\<rparr>) \<and> length reqs = 10"
    by (metis InvokeAI_def)
qed

text \<open>
  Witness for C1: nine tool-call replies and then content give a message that carries a
  history after 10 requests; tool-call replies without end give the failure.
\<close>

theorem invoke_at_most_ten_calls_witness:
  "returned_history
     (fst (InvokeAI (scripted nine_then_content sample_tools sample_urc sample_umw) ''gpt-4o'' []
             \<lparr>world = 0, sent = []\<rparr>)) \<noteq> None
   \<and> length (sent (snd (InvokeAI (scripted nine_then_content sample_tools sample_urc sample_umw)
                          ''gpt-4o'' [] \<lparr>world = 0, sent = []\<rparr>))) = 10
   \<and> fst (InvokeAI (scripted always_tools sample_tools sample_urc sample_umw) ''gpt-4o'' []
             \<lparr>world = 0, sent = []\<rparr>)
       = ErrMsg ''max iterations reached - possible infinite loop''"
  using
    invoke_at_most_ten_calls[of "scripted nine_then_content sample_tools sample_urc sample_umw"
      "''gpt-4o''" "[]" "\<lparr>world = 0, sent = []\<rparr>" nine_then_content sample_tools sample_urc
      sample_umw]
    invoke_at_most_ten_calls[of "scripted nine_then_content sample_tools sample_urc sample_umw"
      "''gpt-4o''" "[]" "\<lparr>world = 0, sent = []\<rparr>" always_tools sample_tools sample_urc
      sample_umw]
  by (auto simp: nine_then_content_def always_tools_def read_call_reply content_reply_def
        content_choice_def returned_history_def)

section \<open>A reply without tool calls\<close>

text \<open>
  C4. When \<^verbatim>\<open>PROVIDER_MODEL\<close> is set and the reply to the first request has a first
  choice without tool calls, \<open>InvokeAI\<close> on the history \<open>H\<close> returns \<open>AiResponseMsg\<close> with
  the reply's content and the history \<open>H\<close> followed by exactly one assistant message with
  that content; one request, carrying \<open>H\<close>, has been sent.
\<close>

theorem invoke_zero_tool_calls_final:
  "modelName \<noteq> [] \<Longrightarrow>
   CreateChatCompletion e (world s) H = (Inr (choice # choices), w') \<Longrightarrow>
   ToolCalls (Message choice) = [] \<Longrightarrow>
   InvokeAI e modelName H s =
     (AiResponseMsg (Content (Message choice))
        (H @ [\<lparr>Role = ''assistant'', Content = Content (Message choice), ToolCalls = [],
                ToolCallID = []\<rparr>]),
      s\<lparr>world := w', sent := sent s @ [H]\<rparr>)"
  by (simp add: InvokeAI_def agent_loop.simps[of e 0] iteration_body_def Let_def
        ChatMessageRoleAssistant_def)

text \<open>
  Witness for C4: the initial history (system prompt and greeting) and a content reply.
\<close>

theorem invoke_zero_tool_calls_final_witness:
  "InvokeAI (scripted content_first sample_tools sample_urc sample_umw) ''gpt-4o''
      (History (InitialModel [] ''You are Trace.'')) \<lparr>world = 0, sent = []\<rparr>
   = (AiResponseMsg ''Done.''
        (History (InitialModel [] ''You are Trace.'') @
           [\<lparr>Role = ''assistant'', Content = ''Done.'', ToolCalls = [], ToolCallID = []\<rparr>]),
      \<lparr>world = 1, sent = [History (InitialModel [] ''You are Trace.'')]\<rparr>)"
  using invoke_zero_tool_calls_final[of "''gpt-4o''"
      "scripted content_first sample_tools sample_urc sample_umw" "\<lparr>world = 0, sent = []\<rparr>"
      "History (InitialModel [] ''You are Trace.'')" "content_choice ''Done.''" "[]" 1]
  by (simp add: scripted_def content_first_def content_choice_def)

section \<open>Tool calls of one reply\<close>

lemmas eval_defs = scripted_def sample_tools_def sample_urc_def sample_umw_def read_call_def
  edit_call_def run_call_def malformed_run_call_def tool_choice_def content_choice_def
  out_of_band_def execute_tool_def iteration_body_def Let_def ChatMessageRoleTool_def
  ChatMessageRoleAssistant_def synchronous_def

text \<open>
  C5, as stated, fails: a \<^verbatim>\<open>run_command\<close> call whose arguments do not decode is a call
  of an out-of-band kind, and the loop does not return a \<open>RunCommandMsg\<close> for it: the call
  is executed through the registry, its error becomes a tool message, and the next reply
  (content) ends the invocation with \<open>AiResponseMsg\<close>.
\<close>

theorem malformed_out_of_band_call_counterexample:
  "fst (InvokeAI (scripted malformed_then_content sample_tools sample_urc sample_umw) ''gpt-4o'' []
          \<lparr>world = 0, sent = []\<rparr>)
     = AiResponseMsg ''Done.''
         [\<lparr>Role = ''assistant'', Content = [], ToolCalls = [malformed_run_call], ToolCallID = []\<rparr>,
          \<lparr>Role = ''tool'', Content = ''Error executing tool: unexpected end of JSON input'',
            ToolCalls = [], ToolCallID = ''call_3''\<rparr>,
          \<lparr>Role = ''assistant'', Content = ''Done.'', ToolCalls = [], ToolCallID = []\<rparr>]"
  by (simp add: InvokeAI_def agent_loop.simps[of _ 0] agent_loop.simps[of _ "Suc 0"]
        malformed_then_content_def eval_defs)

text \<open>
  C5, amended. Let the reply to the request of a pass have the tool calls
  \<open>pre @ tc # post\<close>, every call of \<open>pre\<close> synchronous. The calls of \<open>pre\<close> are
  executed in order, each adding one tool message with its call id after the assistant
  message. If \<open>tc\<close> is a \<^verbatim>\<open>run_command\<close> (\<^verbatim>\<open>manage_window\<close>) call whose arguments
  decode, the loop returns at once a \<open>RunCommandMsg\<close> (\<open>WindowControlMsg\<close>) with the
  decoded fields, the id of \<open>tc\<close> and the history so far: the messages of the request, the
  assistant message and the results of \<open>pre\<close>. Neither the message nor the state depends
  on \<open>post\<close>: the calls after \<open>tc\<close> are not processed.
\<close>

theorem out_of_band_call_suspends:
  assumes "iteration < 10"
    and "CreateChatCompletion e (world s) ms = (Inr (choice # choices), w')"
    and "ToolCalls (Message choice) = pre @ tc # post"
    and "list_all (synchronous e) pre"
  shows "\<exists>rs s1.
           tool_calls_loop e pre
             (ms @ [\<lparr>Role = ''assistant'', Content = Content (Message choice),
                      ToolCalls = ToolCalls (Message choice), ToolCallID = []\<rparr>])
             (s\<lparr>world := w', sent := sent s @ [ms]\<rparr>)
             = (Inr (ms @ [\<lparr>Role = ''assistant'', Content = Content (Message choice),
                             ToolCalls = ToolCalls (Message choice), ToolCallID = []\<rparr>] @ rs), s1)
           \<and> map ToolCallID rs = map ID pre \<and> list_all (\<lambda>r. Role r = ''tool'') rs
           \<and> (FunctionName tc = ''run_command''
                \<and> Unmarshal_run_command e (FunctionArguments tc) = Some (command, args) \<longrightarrow>
              agent_loop e iteration ms s =
                (RunCommandMsg command args (ID tc)
                   (ms @ [\<lparr>Role = ''assistant'', Content = Content (Message choice),
                            ToolCalls = ToolCalls (Message choice), ToolCallID = []\<rparr>] @ rs), s1))
           \<and> (FunctionName tc = ''manage_window''
                \<and> Unmarshal_manage_window e (FunctionArguments tc) = Some (action, target) \<longrightarrow>
              agent_loop e iteration ms s =
                (WindowControlMsg action target (ID tc)
                   (ms @ [\<lparr>Role = ''assistant'', Content = Content (Message choice),
                            ToolCalls = ToolCalls (Message choice), ToolCallID = []\<rparr>] @ rs), s1))"
proof -
  let ?a = "\<lparr>Role = ''assistant'', Content = Content (Message choice),
             ToolCalls = ToolCalls (Message choice), ToolCallID = []\<rparr>"
  let ?s0 = "s\<lparr>world := w', sent := sent s @ [ms]\<rparr>"
  from tool_calls_loop_sync[OF assms(4), of "ms @ [?a]" ?s0] obtain ms1 s1 where
    p: "tool_calls_loop e pre (ms @ [?a]) ?s0 = (Inr ms1, s1)" by blast
  from tool_calls_loop_results[OF p] obtain rs where
    rs: "ms1 = (ms @ [?a]) @ rs" "map ToolCallID rs = map ID pre" "list_all (\<lambda>r. Role r = ''tool'') rs"
    by blast
  have body: "iteration_body e ms s = tool_calls_loop e (pre @ tc # post) (ms @ [?a]) ?s0"
    using assms(2,3) by (simp add: iteration_body_def Let_def ChatMessageRoleAssistant_def)
  have split: "tool_calls_loop e (pre @ tc # post) (ms @ [?a]) ?s0 = tool_calls_loop e (tc # post) ms1 s1"
    using p by (simp add: tool_calls_loop_append)
  have run: "agent_loop e iteration ms s = (RunCommandMsg command args (ID tc) ms1, s1)"
    if "FunctionName tc = ''run_command''"
       "Unmarshal_run_command e (FunctionArguments tc) = Some (command, args)"
    using that assms(1) body split by (simp add: agent_loop.simps[of e iteration] out_of_band_def)
  have win: "agent_loop e iteration ms s = (WindowControlMsg action target (ID tc) ms1, s1)"
    if "FunctionName tc = ''manage_window''"
       "Unmarshal_manage_window e (FunctionArguments tc) = Some (action, target)"
    using that assms(1) body split by (simp add: agent_loop.simps[of e iteration] out_of_band_def)
  show ?thesis
    using p rs run win by (intro exI[of _ rs] exI[of _ s1]) simp
qed

text \<open>
  Witness for C5: the reply asks for \<^verbatim>\<open>read_file\<close>, \<^verbatim>\<open>run_command\<close> and
  \<^verbatim>\<open>edit_file\<close>; the file is read, the command is handed back, the edit is dropped.
\<close>

theorem out_of_band_call_suspends_witness:
  "agent_loop (scripted read_run_edit sample_tools sample_urc sample_umw) 0 []
      \<lparr>world = 0, sent = []\<rparr>
   = (RunCommandMsg ''ls'' [''-l''] ''call_2''
        [\<lparr>Role = ''assistant'', Content = [], ToolCalls = [read_call, run_call, edit_call],
           ToolCallID = []\<rparr>,
         \<lparr>Role = ''tool'', Content = ''package main'', ToolCalls = [], ToolCallID = ''call_1''\<rparr>],
      \<lparr>world = 1, sent = [[]]\<rparr>)"
  using out_of_band_call_suspends[of 0 "scripted read_run_edit sample_tools sample_urc sample_umw"
      "\<lparr>world = 0, sent = []\<rparr>" "[]" "tool_choice [read_call, run_call, edit_call]" "[]" 1
      "[read_call]" run_call "[edit_call]" "''ls''" "[''-l'']"]
  by (auto simp: read_run_edit_def eval_defs)

section \<open>Errors of synchronous tools\<close>

text \<open>
  C7, as stated, fails on the tenth pass. The first nine replies ask for a read, the tenth
  for an edit that fails. The error is recorded as a tool message, but the loop is used
  up: the invocation returns the failure "max iterations", which carries no history, and
  none of its ten requests contains the message. It never reaches the endpoint.
\<close>

theorem tool_error_on_last_pass_counterexample:
  "fst (InvokeAI (scripted nine_then_failing_edit sample_tools sample_urc sample_umw) ''gpt-4o'' []
          \<lparr>world = 0, sent = []\<rparr>)
     = ErrMsg ''max iterations reached - possible infinite loop''
   \<and> length (sent (snd (InvokeAI (scripted nine_then_failing_edit sample_tools sample_urc
                                      sample_umw) ''gpt-4o'' [] \<lparr>world = 0, sent = []\<rparr>))) = 10
   \<and> filter (\<lambda>request.
         \<lparr>Role = ''tool'',
          Content = ''Error executing tool: search block not found in main.go. Ensure exact match (including whitespace).'',
          ToolCalls = [], ToolCallID = ''call_4''\<rparr> \<in> set request)
        (sent (snd (InvokeAI (scripted nine_then_failing_edit sample_tools sample_urc sample_umw)
                      ''gpt-4o'' [] \<lparr>world = 0, sent = []\<rparr>))) = []
   \<and> returned_history
        (fst (InvokeAI (scripted nine_then_failing_edit sample_tools sample_urc sample_umw)
                ''gpt-4o'' [] \<lparr>world = 0, sent = []\<rparr>)) = None"
  by code_simp

text \<open>
  C7, amended. Let the reply of a pass have the tool calls \<open>pre @ tc # post\<close>, where the
  calls of \<open>pre\<close> have been processed without a return, \<open>tc\<close> is synchronous and its
  execution returns the error \<open>err\<close>. Then the tool message for \<open>tc\<close> has the non-empty
  content \<^verbatim>\<open>Error executing tool: <err>\<close>; the loop goes on with the calls of \<open>post\<close>
  from the history extended by that message, and with the next pass if none of them
  returns; every request sent later in the invocation contains the message, and so does
  every history the invocation returns. When the calls of \<open>post\<close> are synchronous and the
  pass is not the tenth, there is a next request and it contains the message; when the
  pass is the tenth, no further request is made and the failure "max iterations" is
  returned.
\<close>

theorem tool_error_does_not_abort:
  assumes "iteration < 10"
    and "CreateChatCompletion e (world s) ms = (Inr (choice # choices), w')"
    and "ToolCalls (Message choice) = pre @ tc # post"
    and "tool_calls_loop e pre
                (ms @ [\<lparr>Role = ''assistant'', Content = Content (Message choice),
                         ToolCalls = ToolCalls (Message choice), ToolCallID = []\<rparr>])
                (s\<lparr>world := w', sent := sent s @ [ms]\<rparr>) = (Inr ms1, s1)"
    and "synchronous e tc"
    and "ExecuteToolByName (GetAllToolDefinitions e) (FunctionName tc)
                (FunctionArguments tc) (world s1) = (Inl err, w2)"
    and "toolMsg = \<lparr>Role = ''tool'', Content = ''Error executing tool: '' @ err,
                         ToolCalls = [], ToolCallID = ID tc\<rparr>"
  shows "Content toolMsg \<noteq> []
    \<and> agent_loop e iteration ms s =
           (case tool_calls_loop e post (ms1 @ [toolMsg]) (s1\<lparr>world := w2\<rparr>) of
              (Inl m, s') \<Rightarrow> (m, s')
            | (Inr ms', s') \<Rightarrow> agent_loop e (Suc iteration) ms' s')
    \<and> (\<exists>reqs. sent (snd (agent_loop e iteration ms s)) = sent s @ ms # reqs
                 \<and> (\<forall>r\<in>set reqs. toolMsg \<in> set r))
    \<and> (list_all (synchronous e) post \<and> Suc iteration < 10 \<longrightarrow>
         (\<exists>next rest. sent (snd (agent_loop e iteration ms s)) = sent s @ ms # next # rest
            \<and> toolMsg \<in> set next))
    \<and> (\<forall>h. returned_history (fst (agent_loop e iteration ms s)) = Some h \<longrightarrow> toolMsg \<in> set h)
    \<and> (list_all (synchronous e) post \<and> Suc iteration = 10 \<longrightarrow>
         fst (agent_loop e iteration ms s)
           = ErrMsg ''max iterations reached - possible infinite loop''
         \<and> sent (snd (agent_loop e iteration ms s)) = sent s @ [ms])"
  using tool_error_core[OF assms] tool_error_next_request[OF assms]
    tool_error_last_pass[OF assms] by blast

text \<open>
  Witness for C7: \<^verbatim>\<open>edit_file\<close> fails between two reads; the second request carries
  the error message between the results of the reads.
\<close>

theorem tool_error_does_not_abort_witness:
  "(\<exists>reqs. sent (snd (agent_loop (scripted failing_edit_then_content sample_tools sample_urc sample_umw)
                        0 [] \<lparr>world = 0, sent = []\<rparr>)) = [] # reqs
          \<and> (\<forall>r\<in>set reqs.
                \<lparr>Role = ''tool'', Content = ''Error executing tool: search block not found in main.go. Ensure exact match (including whitespace).'',
                 ToolCalls = [], ToolCallID = ''call_4''\<rparr> \<in> set r))
   \<and> sent (snd (agent_loop (scripted failing_edit_then_content sample_tools sample_urc sample_umw)
                        0 [] \<lparr>world = 0, sent = []\<rparr>)) ! 1
      = [\<lparr>Role = ''assistant'', Content = [], ToolCalls = [read_call, edit_call, read_call],
           ToolCallID = []\<rparr>,
         \<lparr>Role = ''tool'', Content = ''package main'', ToolCalls = [], ToolCallID = ''call_1''\<rparr>,
         \<lparr>Role = ''tool'', Content = ''Error executing tool: search block not found in main.go. Ensure exact match (including whitespace).'',
           ToolCalls = [], ToolCallID = ''call_4''\<rparr>,
         \<lparr>Role = ''tool'', Content = ''package main'', ToolCalls = [], ToolCallID = ''call_1''\<rparr>]"
proof -
  let ?e = "scripted failing_edit_then_content sample_tools sample_urc sample_umw"
  let ?a = "\<lparr>Role = ''assistant'', Content = [], ToolCalls = [read_call, edit_call, read_call],
             ToolCallID = []\<rparr>"
  let ?r = "\<lparr>Role = ''tool'', Content = ''package main'', ToolCalls = [], ToolCallID = ''call_1''\<rparr>"
  let ?t = "\<lparr>Role = ''tool'', Content = ''Error executing tool: search block not found in main.go. Ensure exact match (including whitespace).'',
             ToolCalls = [], ToolCallID = ''call_4''\<rparr>"
  have 1: "CreateChatCompletion ?e (world \<lparr>world = 0::nat, sent = []\<rparr>) []
             = (Inr (tool_choice [read_call, edit_call, read_call] # []), 1)"
    by (simp add: failing_edit_then_content_def scripted_def)
  have 2: "ToolCalls (Message (tool_choice [read_call, edit_call, read_call]))
             = [read_call] @ edit_call # [read_call]"
    by (simp add: tool_choice_def)
  have 3: "tool_calls_loop ?e [read_call]
             ([] @ [\<lparr>Role = ''assistant'',
                     Content = Content (Message (tool_choice [read_call, edit_call, read_call])),
                     ToolCalls = ToolCalls (Message (tool_choice [read_call, edit_call, read_call])),
                     ToolCallID = []\<rparr>])
             (\<lparr>world = 0, sent = []\<rparr>\<lparr>world := 1, sent := sent \<lparr>world = 0::nat, sent = []\<rparr> @ [[]]\<rparr>)
           = (Inr [?a, ?r], \<lparr>world = 1, sent = [[]]\<rparr>)"
    by (simp add: eval_defs)
  have 4: "synchronous ?e edit_call" by (simp add: eval_defs)
  have 5: "ExecuteToolByName (GetAllToolDefinitions ?e) (FunctionName edit_call)
             (FunctionArguments edit_call) (world \<lparr>world = 1::nat, sent = [[]]\<rparr>)
           = (Inl ''search block not found in main.go. Ensure exact match (including whitespace).'', 1)"
    by (simp add: eval_defs)
  have 6: "?t = \<lparr>Role = ''tool'', Content = ''Error executing tool: '' @ ''search block not found in main.go. Ensure exact match (including whitespace).'',
                  ToolCalls = [], ToolCallID = ID edit_call\<rparr>"
    by (simp add: edit_call_def)
  have "10 > (0::nat)" by simp
  from tool_error_does_not_abort[OF this 1 2 3 4 5 6]
  have "\<exists>reqs. sent (snd (agent_loop ?e 0 [] \<lparr>world = 0, sent = []\<rparr>))
                 = sent \<lparr>world = 0::nat, sent = []\<rparr> @ [] # reqs
          \<and> (\<forall>r\<in>set reqs. ?t \<in> set r)" by blast
  then have a: "\<exists>reqs. sent (snd (agent_loop ?e 0 [] \<lparr>world = 0, sent = []\<rparr>)) = [] # reqs
          \<and> (\<forall>r\<in>set reqs. ?t \<in> set r)" by simp
  have b: "sent (snd (agent_loop ?e 0 [] \<lparr>world = 0, sent = []\<rparr>)) ! 1 = [?a, ?r, ?t, ?r]"
    by (simp add: agent_loop.simps[of _ 0] agent_loop.simps[of _ "Suc 0"]
          failing_edit_then_content_def eval_defs)
  from a b show ?thesis by blast
qed

section \<open>Malformed arguments of out-of-band calls\<close>

text \<open>
  C9. Let the reply of a pass have the tool calls \<open>pre @ tc # post\<close>, where the calls of
  \<open>pre\<close> have been processed without a return and \<open>tc\<close> is a \<^verbatim>\<open>run_command\<close> or
  \<^verbatim>\<open>manage_window\<close> call whose arguments do not decode. Then neither out-of-band check
  returns for \<open>tc\<close>. The call is executed by \<open>ExecuteToolByName\<close> in the world as the
  calls of \<open>pre\<close> left it; if that returns \<open>outcome\<close> and the world \<open>w2\<close>, the tool
  message appended to the history has the id of \<open>tc\<close> and as content the result, or
  \<^verbatim>\<open>Error executing tool: <err>\<close> for an error, and the loop goes on in the world \<open>w2\<close>
  with the calls of \<open>post\<close>, and with the next pass if none of them returns. Every
  request sent later in the invocation contains that message.
\<close>

theorem malformed_arguments_fall_through:
  assumes "iteration < 10"
    and "CreateChatCompletion e (world s) ms = (Inr (choice # choices), w')"
    and "ToolCalls (Message choice) = pre @ tc # post"
    and "tool_calls_loop e pre
                (ms @ [\<lparr>Role = ''assistant'', Content = Content (Message choice),
                         ToolCalls = ToolCalls (Message choice), ToolCallID = []\<rparr>])
                (s\<lparr>world := w', sent := sent s @ [ms]\<rparr>) = (Inr ms1, s1)"
    and "(FunctionName tc = ''run_command''
            \<and> Unmarshal_run_command e (FunctionArguments tc) = None)
         \<or> (FunctionName tc = ''manage_window''
            \<and> Unmarshal_manage_window e (FunctionArguments tc) = None)"
    and "ExecuteToolByName (GetAllToolDefinitions e) (FunctionName tc)
                (FunctionArguments tc) (world s1) = (outcome, w2)"
  shows "out_of_band e tc ms1 = None
    \<and> agent_loop e iteration ms s =
        (case tool_calls_loop e post
                (ms1 @ [\<lparr>Role = ''tool'',
                          Content = (case outcome of
                                       Inl err \<Rightarrow> ''Error executing tool: '' @ err
                                     | Inr result \<Rightarrow> result),
                          ToolCalls = [], ToolCallID = ID tc\<rparr>])
                (s1\<lparr>world := w2\<rparr>) of
           (Inl m, s') \<Rightarrow> (m, s')
         | (Inr ms', s') \<Rightarrow> agent_loop e (Suc iteration) ms' s')
    \<and> (\<exists>reqs. sent (snd (agent_loop e iteration ms s)) = sent s @ ms # reqs
          \<and> (\<forall>r\<in>set reqs.
                \<lparr>Role = ''tool'',
                 Content = (case outcome of
                              Inl err \<Rightarrow> ''Error executing tool: '' @ err
                            | Inr result \<Rightarrow> result),
                 ToolCalls = [], ToolCallID = ID tc\<rparr> \<in> set r))"
proof -
  let ?a = "\<lparr>Role = ''assistant'', Content = Content (Message choice),
             ToolCalls = ToolCalls (Message choice), ToolCallID = []\<rparr>"
  let ?s0 = "s\<lparr>world := w', sent := sent s @ [ms]\<rparr>"
  let ?t = "\<lparr>Role = ''tool'',
             Content = (case outcome of Inl err \<Rightarrow> ''Error executing tool: '' @ err
                                      | Inr result \<Rightarrow> result),
             ToolCalls = [], ToolCallID = ID tc\<rparr>"
  let ?s2 = "s1\<lparr>world := w2\<rparr>"
  have n: "out_of_band e tc ms1 = None"
    using assms(5) by (auto simp: out_of_band_def)
  then have sy: "synchronous e tc" by (simp add: out_of_band_None)
  have ex: "execute_tool e tc s1 = (?t, ?s2)"
    using assms(6) by (simp add: execute_tool_def ChatMessageRoleTool_def)
  have body: "iteration_body e ms s = tool_calls_loop e post (ms1 @ [?t]) ?s2"
    using assms(2,3) tool_calls_loop_sync_step[OF assms(4) sy, of post] ex
    by (simp add: iteration_body_def Let_def ChatMessageRoleAssistant_def)
  have loop: "agent_loop e iteration ms s =
              (case tool_calls_loop e post (ms1 @ [?t]) ?s2 of
                 (Inl m, s') \<Rightarrow> (m, s')
               | (Inr ms', s') \<Rightarrow> agent_loop e (Suc iteration) ms' s')"
    using assms(1) body by (simp add: agent_loop.simps[of e iteration])
  obtain r s' where t: "tool_calls_loop e post (ms1 @ [?t]) ?s2 = (r, s')"
    by (cases "tool_calls_loop e post (ms1 @ [?t]) ?s2")
  have s1: "sent s1 = sent s @ [ms]"
    using sent_tool_calls_loop[of e pre "ms @ [?a]" ?s0] assms(4) by simp
  have s': "sent s' = sent s @ [ms]"
    using sent_tool_calls_loop[of e post "ms1 @ [?t]" ?s2] t s1 by simp
  note p = tool_calls_loop_prefix[OF t]
  have mem: "\<And>xs. prefix (ms1 @ [?t]) xs \<Longrightarrow> ?t \<in> set xs"
    by (auto simp: prefix_def)
  have reqs: "\<exists>reqs. sent (snd (agent_loop e iteration ms s)) = sent s @ ms # reqs
                 \<and> (\<forall>r\<in>set reqs. ?t \<in> set r)"
  proof (cases r)
    case (Inl m)
    with loop t s' show ?thesis by simp
  next
    case (Inr ms')
    with p have pm: "prefix (ms1 @ [?t]) ms'" by simp
    from agent_loop_prefix[of e "Suc iteration" ms' s'] obtain reqs where
      "sent (snd (agent_loop e (Suc iteration) ms' s')) = sent s' @ reqs" "\<forall>r\<in>set reqs. prefix ms' r"
      by blast
    with loop t Inr s' pm show ?thesis
      by (auto intro!: exI[of _ reqs] mem intro: prefix_order.trans)
  qed
  from n loop reqs show ?thesis by blast
qed

text \<open>
  Witness for C9: a \<^verbatim>\<open>run_command\<close> call with a truncated payload; the error of the
  registry's \<^verbatim>\<open>run_command\<close> tool is recorded and the second pass starts.
\<close>

theorem malformed_arguments_fall_through_witness:
  "agent_loop (scripted malformed_then_content sample_tools sample_urc sample_umw) 0 []
      \<lparr>world = 0, sent = []\<rparr>
   = agent_loop (scripted malformed_then_content sample_tools sample_urc sample_umw) (Suc 0)
       [\<lparr>Role = ''assistant'', Content = [], ToolCalls = [malformed_run_call], ToolCallID = []\<rparr>,
        \<lparr>Role = ''tool'', Content = ''Error executing tool: unexpected end of JSON input'',
          ToolCalls = [], ToolCallID = ''call_3''\<rparr>]
       \<lparr>world = 1, sent = [[]]\<rparr>"
  using malformed_arguments_fall_through[of 0
      "scripted malformed_then_content sample_tools sample_urc sample_umw"
      "\<lparr>world = 0, sent = []\<rparr>" "[]" "tool_choice [malformed_run_call]" "[]" 1
      "[]" malformed_run_call "[]"
      "[\<lparr>Role = ''assistant'', Content = [], ToolCalls = [malformed_run_call], ToolCallID = []\<rparr>]"
      "\<lparr>world = 1, sent = [[]]\<rparr>" "Inl ''unexpected end of JSON input''" 1]
  by (auto simp: malformed_then_content_def eval_defs)

section \<open>Queueing of submissions\<close>

text \<open>
  C2 does not hold of the code. \<open>submit\<close> appends the user message to the history before
  it looks at the phase, so a submission while Thinking changes the history as well as
  the queue. First run: "foo" is submitted while Idle and "bar" while Thinking; afterwards
  the phase is Thinking, the queue is ["bar"], and the history already ends with "bar".
  Second run: "bar" is submitted while a command started for "foo" is running; the
  process completion appends the tool result behind "bar", that history goes to the
  endpoint, and when the reply has arrived the completion event takes "bar" from the queue
  and appends it a second time.
\<close>

theorem submit_while_thinking_changes_history:
  "map_sum id (\<lambda>m. (State m, PendingQueue m, map Content (History m)))
     (run typing (InitialModel [] [])
        [KeyMsg ''f'' False, KeyMsg ''o'' False, KeyMsg ''o'' False, KeyMsg ''enter'' False,
         KeyMsg ''b'' False, KeyMsg ''a'' False, KeyMsg ''r'' False, KeyMsg ''enter'' False])
   = Inr (StateThinking, [''bar''], [''foo'', ''bar''])
   \<and> map_sum id (\<lambda>m. (State m, PendingQueue m, map (\<lambda>x. (Role x, Content x)) (History m)))
     (run typing (InitialModel [] [])
        [KeyMsg ''f'' False, KeyMsg ''o'' False, KeyMsg ''o'' False, KeyMsg ''enter'' False,
         RunCommandMsg ''ls'' [''-l''] ''call_2''
           [\<lparr>Role = ''user'', Content = ''foo'', ToolCalls = [], ToolCallID = []\<rparr>,
            \<lparr>Role = ''assistant'', Content = [], ToolCalls = [run_call], ToolCallID = []\<rparr>],
         KeyMsg ''b'' False, KeyMsg ''a'' False, KeyMsg ''r'' False, KeyMsg ''enter'' False,
         ProcessDoneMsg None ''call_2'',
         AiResponseMsg ''Done.''
           [\<lparr>Role = ''user'', Content = ''foo'', ToolCalls = [], ToolCallID = []\<rparr>,
            \<lparr>Role = ''assistant'', Content = [], ToolCalls = [run_call], ToolCallID = []\<rparr>,
            \<lparr>Role = ''user'', Content = ''bar'', ToolCalls = [], ToolCallID = []\<rparr>,
            \<lparr>Role = ''tool'',
             Content = ''Process Output:'' @ [CHR 0x0A] @ ''```'' @ [CHR 0x0A] @ ''```'' @ [CHR 0x0A]
                       @ ''Process finished successfully.'',
             ToolCalls = [], ToolCallID = ''call_2''\<rparr>,
            \<lparr>Role = ''assistant'', Content = ''Done.'', ToolCalls = [], ToolCallID = []\<rparr>],
         AiCompleteMsg])
   = Inr (StateThinking, [],
          [(''user'', ''foo''), (''assistant'', []), (''user'', ''bar''),
           (''tool'', ''Process Output:'' @ [CHR 0x0A] @ ''```'' @ [CHR 0x0A] @ ''```'' @ [CHR 0x0A]
                       @ ''Process finished successfully.''),
           (''assistant'', ''Done.''), (''user'', ''bar'')])"
  by code_simp

section \<open>Autocomplete candidates\<close>

text \<open>
  C3, as stated, fails: with the files main.go, model.go, styles.go, typing \<^verbatim>\<open>@ma\<close> does
  not give the candidates main.go, model.go ("model.go" does not contain "ma").
\<close>

theorem autocomplete_ma_counterexample:
  "map_sum id AutocompleteList
     (run typing (InitialModel sample_files [])
        [KeyMsg ''@'' False, KeyMsg ''m'' False, KeyMsg ''a'' False])
   \<noteq> Inr [''main.go'', ''model.go'']"
  by code_simp

lemma ma_run:
  "map_sum id AutocompleteList
     (run typing (InitialModel sample_files [])
        [KeyMsg ''@'' False, KeyMsg ''m'' False, KeyMsg ''a'' False])
   = Inr [''main.go'']"
  by code_simp

lemma m_run:
  "map_sum id AutocompleteList
     (run typing (InitialModel sample_files []) [KeyMsg ''@'' False, KeyMsg ''m'' False])
   = Inr [''main.go'', ''model.go'']"
  by code_simp

lemma nbsp_ma:
  "AutocompleteList
     (update_autocomplete
        ((InitialModel sample_files [])\<lparr>Input := ''see'' @ [CHR 0xC2, CHR 0xA0] @ ''@ma''\<rparr>))
   = [''main.go'']"
  by code_simp

lemma update_autocomplete_recomputes:
  assumes "Fields (Input m) \<noteq> []" and "last (Fields (Input m)) = ''@'' @ partial"
    and "\<not> known_file (Files m) partial"
  shows "AutocompleteList (update_autocomplete m) = autocomplete_loop (Files m) partial []"
  using assms by (simp add: update_autocomplete_def Let_def HasPrefix_def TrimPrefix_def)

text \<open>
  C3, amended. For every file list and partial, the candidate loop returns the first 10
  files that contain the partial (all files when it is empty): at most 10 entries, in the
  order of the file list. When the last token of the input is \<^verbatim>\<open>@\<close> followed by a partial
  that is not itself a known file, the recomputed candidate list is the result of that
  loop. With the files main.go, model.go, styles.go, typing \<^verbatim>\<open>@ma\<close> gives the candidates
  main.go alone; it is \<^verbatim>\<open>@m\<close> that gives main.go, model.go. The last token is found
  behind Unicode white space as well: the input "see", a no-break space, "@ma" gives
  main.go.
\<close>

theorem autocomplete_candidates:
  "autocomplete_loop files search []
     = take 10 (filter (\<lambda>f. search = [] \<or> Contains f search) files)
   \<and> length (autocomplete_loop files search []) \<le> 10
   \<and> subseq (autocomplete_loop files search []) files
   \<and> (Fields (Input m) \<noteq> [] \<and> last (Fields (Input m)) = ''@'' @ partial
        \<and> \<not> known_file (Files m) partial \<longrightarrow>
      AutocompleteList (update_autocomplete m) = autocomplete_loop (Files m) partial [])
   \<and> map_sum id AutocompleteList
        (run typing (InitialModel sample_files [])
           [KeyMsg ''@'' False, KeyMsg ''m'' False, KeyMsg ''a'' False])
      = Inr [''main.go'']
   \<and> map_sum id AutocompleteList
        (run typing (InitialModel sample_files []) [KeyMsg ''@'' False, KeyMsg ''m'' False])
      = Inr [''main.go'', ''model.go'']
   \<and> AutocompleteList
        (update_autocomplete
           ((InitialModel sample_files [])\<lparr>Input := ''see'' @ [CHR 0xC2, CHR 0xA0] @ ''@ma''\<rparr>))
      = [''main.go'']"
  using update_autocomplete_recomputes[of m partial] ma_run m_run nbsp_ma
  by (simp add: autocomplete_loop_eq subseq_take_filter)

text \<open>Witness for C3: the input "explain @ma" with the three files.\<close>

theorem autocomplete_candidates_witness:
  "AutocompleteList (update_autocomplete ((InitialModel sample_files [])\<lparr>Input := ''explain @ma''\<rparr>))
     = [''main.go'']"
proof -
  let ?m = "(InitialModel sample_files [])\<lparr>Input := ''explain @ma''\<rparr>"
  have 1: "Fields (Input ?m) \<noteq> []" by code_simp
  have 2: "last (Fields (Input ?m)) = ''@'' @ ''ma''" by code_simp
  have 3: "\<not> known_file (Files ?m) ''ma''" by code_simp
  have 4: "autocomplete_loop (Files ?m) ''ma'' [] = [''main.go'']" by code_simp
  from autocomplete_candidates[of "Files ?m" "''ma''" ?m "''ma''"] 1 2 3 4 show ?thesis by simp
qed

section \<open>The autocomplete index\<close>

text \<open>
  C10. The initial model satisfies the autocomplete invariant; every transition from a
  model that satisfies it ends without a panic in a model that satisfies it; hence after
  every sequence of messages from the initial model the program has not panicked and,
  whenever the autocomplete overlay is shown, the candidate list is not empty and
  \<open>0 \<le> AutocompleteIdx < length AutocompleteList\<close>. The selection on tab and enter is
  the only indexing of the list and is a panic of the model when out of range.
\<close>

theorem autocomplete_index_in_bounds:
  "autocomplete_inv (InitialModel files systemPrompt)
   \<and> (autocomplete_inv m \<longrightarrow>
        (\<exists>m' cmds. Update ta m msg = Inr (m', cmds) \<and> autocomplete_inv m'))
   \<and> (\<exists>m. run ta (InitialModel files systemPrompt) msgs = Inr m
          \<and> (ShowAutocomplete m \<longrightarrow>
               AutocompleteList m \<noteq> [] \<and> 0 \<le> AutocompleteIdx m
               \<and> AutocompleteIdx m < int (length (AutocompleteList m))))"
  using Initial_inv[of files systemPrompt] Update_inv[of m ta msg]
    run_inv[OF Initial_inv, of ta files systemPrompt msgs]
  by (auto simp: autocomplete_inv_def)

text \<open>
  Witness for C10: after typing \<^verbatim>\<open>@m\<close> and pressing down the overlay is shown.
\<close>

theorem autocomplete_index_in_bounds_witness:
  "\<exists>m. run typing (InitialModel sample_files [])
          [KeyMsg ''@'' False, KeyMsg ''m'' False, KeyMsg ''down'' False] = Inr m
       \<and> ShowAutocomplete m \<and> AutocompleteList m \<noteq> [] \<and> 0 \<le> AutocompleteIdx m
       \<and> AutocompleteIdx m < int (length (AutocompleteList m))"
proof -
  have s: "map_sum id ShowAutocomplete
             (run typing (InitialModel sample_files [])
                [KeyMsg ''@'' False, KeyMsg ''m'' False, KeyMsg ''down'' False]) = Inr True"
    by code_simp
  from autocomplete_index_in_bounds[of sample_files "[]" "InitialModel sample_files []" typing AiCompleteMsg
      "[KeyMsg ''@'' False, KeyMsg ''m'' False, KeyMsg ''down'' False]"]
  obtain m where "run typing (InitialModel sample_files [])
          [KeyMsg ''@'' False, KeyMsg ''m'' False, KeyMsg ''down'' False] = Inr m"
    "ShowAutocomplete m \<longrightarrow>
               AutocompleteList m \<noteq> [] \<and> 0 \<le> AutocompleteIdx m
               \<and> AutocompleteIdx m < int (length (AutocompleteList m))" by blast
  with s show ?thesis by auto
qed

section \<open>Process completion\<close>

text \<open>
  C6. On every process completion event, in every model: the output buffer is empty
  afterwards, the phase is Thinking, the agent loop is invoked on the new history, and the
  history has grown by exactly one tool message with the call id, whose content is the
  result text alone when the sidebar is shown and the result text behind the whole buffer
  when it is not.
\<close>

theorem process_done_clears_buffer:
  "\<exists>m' toolMsg.
     Update ta m (ProcessDoneMsg err toolCallID) = Inr (m', [InvokeAICmd (History m')])
     \<and> ProcessOutput m' = []
     \<and> State m' = StateThinking
     \<and> History m' = History m @ [toolMsg]
     \<and> Role toolMsg = ''tool'' \<and> ToolCallID toolMsg = toolCallID
     \<and> Content toolMsg =
         (let result = (case err of None \<Rightarrow> ''Process finished successfully.''
                                  | Some e \<Rightarrow> ''Process exited with error: '' @ e)
          in if ShowSidebar m then result
             else ''Process Output:'' @ [CHR 0x0A] @ ''```'' @ [CHR 0x0A] @ ProcessOutput m
                    @ ''```'' @ [CHR 0x0A] @ result)"
  by (simp add: Update_def Let_def ChatMessageRoleTool_def)

section \<open>Start failures of the process runner\<close>

text \<open>
  C8. When the process cannot be started, the channel carries no message and the one
  message the command returns is \<open>ProcessDoneMsg\<close> with the start error and the call id.
  When the process starts, the message returned is \<open>ProcessDoneMsg\<close> with the call id and
  what \<^verbatim>\<open>cmd.Wait()\<close> returns, nil on a clean exit.
\<close>

theorem run_process_completion:
  "(Start sys (ResolveBinary sys command) args = Inl err \<longrightarrow>
      RunProcessCmd sys command args toolCallID
        = \<lparr>outputs = {[]}, completion = ProcessDoneMsg (Some err) toolCallID\<rparr>)
   \<and> (Start sys (ResolveBinary sys command) args = Inr p \<longrightarrow>
      completion (RunProcessCmd sys command args toolCallID)
        = ProcessDoneMsg (Wait p) toolCallID)"
  by (simp add: RunProcessCmd_def Let_def)

text \<open>
  Witness for C8: \<^verbatim>\<open>make\<close> is not installed; \<^verbatim>\<open>python\<close> resolves to \<^verbatim>\<open>python3\<close>
  and exits cleanly; \<^verbatim>\<open>ls\<close> exits with an error.
\<close>

theorem run_process_completion_witness:
  "RunProcessCmd sample_os ''make'' [''test''] ''call_2''
     = \<lparr>outputs = {[]},
        completion = ProcessDoneMsg (Some ''executable file not found in $PATH'') ''call_2''\<rparr>
   \<and> completion (RunProcessCmd sample_os ''python'' [''-V''] ''call_2'')
       = ProcessDoneMsg None ''call_2''
   \<and> completion (RunProcessCmd sample_os ''ls'' [''nowhere''] ''call_2'')
       = ProcessDoneMsg (Some ''exit status 2'') ''call_2''"
proof -
  have 1: "Start sample_os (ResolveBinary sample_os ''make'') [''test'']
             = Inl ''executable file not found in $PATH''"
    by (simp add: sample_os_def ResolveBinary_def)
  have 2: "Start sample_os (ResolveBinary sample_os ''python'') [''-V'']
             = Inr \<lparr>stdout = [''a'', ''b''], stderr = [], Wait = None\<rparr>"
    by (simp add: sample_os_def ResolveBinary_def)
  have 3: "Start sample_os (ResolveBinary sample_os ''ls'') [''nowhere'']
             = Inr \<lparr>stdout = [], stderr = [''ls: cannot access''], Wait = Some ''exit status 2''\<rparr>"
    by (simp add: sample_os_def ResolveBinary_def)
  from run_process_completion[of sample_os "''make''" "[''test'']" "''executable file not found in $PATH''" "''call_2''"] 1
    run_process_completion[of sample_os "''python''" "[''-V'']" _ "''call_2''" "\<lparr>stdout = [''a'', ''b''], stderr = [], Wait = None\<rparr>"] 2
    run_process_completion[of sample_os "''ls''" "[''nowhere'']" _ "''call_2''" "\<lparr>stdout = [], stderr = [''ls: cannot access''], Wait = Some ''exit status 2''\<rparr>"] 3
  show ?thesis by simp
qed

end
